theory Spec2Isabelle
  imports Main
begin

section \<open>Python strings\<close>

text \<open>
  A Python \<^verbatim>\<open>str\<close> is modelled as a \<^typ>\<open>string\<close> whose characters are the code
  points below 256 (the Latin-1 range, which holds the accented letters of the Spanish
  phrases the program looks for). The functions of this section are the \<^verbatim>\<open>str\<close>
  methods the program calls, restricted to that range.
\<close>

definition nl :: char where
  "nl = CHR 0x0A"

text \<open>\<^verbatim>\<open>str.isspace\<close> on one character: TAB, LF, VT, FF, CR, FS, GS, RS, US, space,
  NEL (0x85) and NBSP (0xA0).\<close>

definition is_space :: "char \<Rightarrow> bool" where
  "is_space c = (c \<in> set [CHR 0x09, CHR 0x0A, CHR 0x0B, CHR 0x0C, CHR 0x0D,
                            CHR 0x1C, CHR 0x1D, CHR 0x1E, CHR 0x1F, CHR 0x20,
                            CHR 0x85, CHR 0xA0])"

text \<open>\<^verbatim>\<open>s.strip()\<close>\<close>

definition strip :: "string \<Rightarrow> string" where
  "strip s = rev (dropWhile is_space (rev (dropWhile is_space s)))"

text \<open>\<^verbatim>\<open>s.startswith(p)\<close>\<close>

definition startswith :: "string \<Rightarrow> string \<Rightarrow> bool" where
  "startswith p s = (take (length p) s = p)"

text \<open>\<^verbatim>\<open>s.split()\<close>: the maximal runs of non-whitespace characters. The first
  argument of the helper is the current run, reversed.\<close>

fun split_ws_from :: "string \<Rightarrow> string \<Rightarrow> string list" where
  "split_ws_from cur [] = (if cur = [] then [] else [rev cur])"
| "split_ws_from cur (c # cs) =
     (if is_space c
      then (if cur = [] then split_ws_from [] cs else rev cur # split_ws_from [] cs)
      else split_ws_from (c # cur) cs)"

definition split_ws :: "string \<Rightarrow> string list" where
  "split_ws s = split_ws_from [] s"

text \<open>\<^verbatim>\<open>s.split(sep)\<close> for a one-character separator; the result is never empty.\<close>

fun split_on :: "char \<Rightarrow> string \<Rightarrow> string list" where
  "split_on sep [] = [[]]"
| "split_on sep (c # cs) =
     (if c = sep then [] # split_on sep cs
      else (case split_on sep cs of
              [] \<Rightarrow> [[c]]
            | w # ws \<Rightarrow> (c # w) # ws))"

section \<open>The content validator\<close>

datatype exn = KeyError | IndexError | ValueError | TableError

text \<open>The second component of the validator's result is a message; the model keeps which
  message it is and the numbers it reports.\<close>

datatype verdict_msg =
    ExceedsLimit string nat nat  \<comment> \<open>level, ceiling, word count\<close>
  | TooShort
  | MissingHeading
  | ValidContent

definition max_words :: "(string \<times> nat) list" where
  "max_words = [(''basico'', 500), (''medio'', 1000), (''profesional'', 2000)]"

text \<open>
  \<^verbatim>\<open>re.search(r'^.*\n*(# .+|## .+|### .+)', text, re.MULTILINE)\<close>, as the existence of a
  match. \<open>heading_group\<close> is the parenthesised alternation matched at the head of a
  string (\<^verbatim>\<open>.\<close> is any character but a line feed), \<open>match_nls\<close> is \<^verbatim>\<open>\n*(...)\<close>,
  \<open>match_dots\<close> is \<^verbatim>\<open>.*\n*(...)\<close>, and \<open>search_from\<close> tries every start position,
  where \<^verbatim>\<open>^\<close> holds at the start of the text and after each line feed.
\<close>

definition marker_then_dot :: "string \<Rightarrow> string \<Rightarrow> bool" where
  "marker_then_dot m s =
     (startswith m s \<and> (case drop (length m) s of [] \<Rightarrow> False | c # _ \<Rightarrow> c \<noteq> nl))"

definition heading_group :: "string \<Rightarrow> bool" where
  "heading_group s =
     (marker_then_dot ''# '' s \<or> marker_then_dot ''## '' s \<or> marker_then_dot ''### '' s)"

fun match_nls :: "string \<Rightarrow> bool" where
  "match_nls [] = heading_group []"
| "match_nls (c # cs) = (heading_group (c # cs) \<or> (c = nl \<and> match_nls cs))"

fun match_dots :: "string \<Rightarrow> bool" where
  "match_dots [] = match_nls []"
| "match_dots (c # cs) = (match_nls (c # cs) \<or> (c \<noteq> nl \<and> match_dots cs))"

fun search_from :: "bool \<Rightarrow> string \<Rightarrow> bool" where
  "search_from bol [] = (bol \<and> match_dots [])"
| "search_from bol (c # cs) = ((bol \<and> match_dots (c # cs)) \<or> search_from (c = nl) cs)"

definition heading_search :: "string \<Rightarrow> bool" where
  "heading_search text = search_from True text"

text \<open>\<^verbatim>\<open>DocumentGenerator.validate_generated_text\<close>. The lookup \<^verbatim>\<open>max_words[level]\<close>
  raises \<^verbatim>\<open>KeyError\<close> for a level outside the table.\<close>

definition validate_generated_text :: "string \<Rightarrow> string \<Rightarrow> bool \<Rightarrow> exn + (bool \<times> verdict_msg)" where
  "validate_generated_text text level is_conversational =
     (let word_count = length (split_ws text) in
      case map_of max_words level of
        None \<Rightarrow> Inl KeyError
      | Some limit \<Rightarrow>
          if word_count > limit then Inr (False, ExceedsLimit level limit word_count)
          else if word_count < 50 \<and> \<not> is_conversational then Inr (False, TooShort)
          else if level \<in> set [''medio'', ''profesional''] \<and> \<not> is_conversational
                  \<and> \<not> heading_search text
               then Inr (False, MissingHeading)
          else Inr (True, ValidContent))"

text \<open>The reading of the heading rule in the specification: some line of the text begins
  with one of the three heading markers.\<close>

definition spec_line_begins_heading :: "string \<Rightarrow> bool" where
  "spec_line_begins_heading text =
     list_ex (\<lambda>l. startswith ''# '' l \<or> startswith ''## '' l \<or> startswith ''### '' l)
       (split_on nl text)"

text \<open>What the search pattern accepts: the two characters \<^verbatim>\<open># \<close> somewhere in the text,
  followed by a character that is not a line feed.\<close>

definition has_marker :: "string \<Rightarrow> bool" where
  "has_marker text = (\<exists>pre c post. text = pre @ ''# '' @ c # post \<and> c \<noteq> nl)"


text \<open>Two sample texts: forty words without a heading marker, and fifty-two words on
  one line with \<^verbatim>\<open># \<close> in the middle of the line.\<close>

definition forty_words :: string where
  "forty_words = concat (replicate 40 ''a '')"

definition inline_marker_text :: string where
  "inline_marker_text = concat (replicate 50 ''a '') @ ''C# b''"

section \<open>More string functions\<close>

text \<open>\<^verbatim>\<open>sub in s\<close>\<close>

fun contains :: "string \<Rightarrow> string \<Rightarrow> bool" where
  "contains sub [] = (sub = [])"
| "contains sub (c # cs) = (startswith sub (c # cs) \<or> contains sub cs)"

text \<open>\<^verbatim>\<open>s.lower()\<close> on the code points below 256: the letters A to Z and the accented
  capitals 0xC0 to 0xDE (but the multiplication sign 0xD7) move up by 32.\<close>

definition lower_char :: "char \<Rightarrow> char" where
  "lower_char c =
     (let n = (of_char c :: nat) in
      if (65 \<le> n \<and> n \<le> 90) \<or> (192 \<le> n \<and> n \<le> 222 \<and> n \<noteq> 215)
      then char_of (n + 32) else c)"

definition lower :: "string \<Rightarrow> string" where
  "lower s = map lower_char s"

text \<open>\<^verbatim>\<open>s.split(sep)\<close> for a separator of one or more characters.\<close>

function split_str :: "string \<Rightarrow> string \<Rightarrow> string list" where
  "split_str sep s =
     (if s = [] then [[]]
      else if sep \<noteq> [] \<and> startswith sep s then [] # split_str sep (drop (length sep) s)
      else (case split_str sep (tl s) of
              [] \<Rightarrow> [[hd s]]
            | w # ws \<Rightarrow> (hd s # w) # ws))"
  by pat_completeness auto
termination
  by (relation "measure (\<lambda>(sep, s). length s)") auto

declare split_str.simps [simp del]

text \<open>\<^verbatim>\<open>str(n)\<close> for a natural number.\<close>

definition digit_char :: "nat \<Rightarrow> char" where
  "digit_char d = char_of (48 + d)"

function str_of_nat :: "nat \<Rightarrow> string" where
  "str_of_nat n =
     (if n < 10 then [digit_char n] else str_of_nat (n div 10) @ [digit_char (n mod 10)])"
  by pat_completeness auto
termination
  by (relation "measure id") auto

declare str_of_nat.simps [simp del]

section \<open>The translation helper\<close>

text \<open>
  \<^verbatim>\<open>GoogleTranslator(source='es', target=target_lang).translate(text)\<close> is an external
  call: given the target language and the text it raises, or returns a value that may be
  \<^verbatim>\<open>None\<close> or a string (possibly empty).
\<close>

type_synonym 'e translator = "string \<Rightarrow> string \<Rightarrow> 'e + string option"

text \<open>\<^verbatim>\<open>utils.translate_text\<close>. The inner \<open>case\<close> is the body of the \<^verbatim>\<open>try\<close>, the
  outer one the \<^verbatim>\<open>except Exception\<close> handler.\<close>

definition translate_text :: "'e translator \<Rightarrow> string \<Rightarrow> string \<Rightarrow> 'e + string" where
  "translate_text tr text target_lang =
     (if target_lang = ''es'' then Inr text
      else (case (case tr target_lang text of
                    Inl e \<Rightarrow> Inl e
                  | Inr translated \<Rightarrow>
                      (case translated of
                         None \<Rightarrow> Inr text
                       | Some t \<Rightarrow> if t = [] then Inr text else Inr t))
            of Inl e \<Rightarrow> Inr text
             | Inr r \<Rightarrow> Inr r))"

text \<open>A translation service that cannot be reached.\<close>

definition unreachable_translator :: "exn translator" where
  "unreachable_translator target text = Inl ValueError"

section \<open>The flow-document (PDF) block parser\<close>

datatype pstyle = BodyText | Heading1 | Heading2 | Heading3

datatype image_src = LogoFile | ChartPng

text \<open>A paragraph flowable holds the text it was built from. The document library reads
  that text as markup, so tags in it are interpreted by the library, not shown.\<close>

datatype flowable =
    Spacer nat nat
  | Paragraph string pstyle
  | Table "string list list" "nat list"  \<comment> \<open>rows, column widths\<close>
  | Image image_src nat nat

text \<open>
  \<^verbatim>\<open>Paragraph(text, style)\<close> parses its text as markup when the paragraph is built and
  raises \<^verbatim>\<open>ValueError\<close> on text the markup parser refuses; the parser passes the lines
  of the input to it unescaped. Which texts the library's parser accepts is the parameter
  \<open>accepts\<close> of the functions below.
\<close>

type_synonym markup_parser = "string \<Rightarrow> bool"

definition new_paragraph :: "markup_parser \<Rightarrow> string \<Rightarrow> pstyle \<Rightarrow> exn + flowable" where
  "new_paragraph accepts text sty =
     (if accepts text then Inr (Paragraph text sty) else Inl ValueError)"

record pdf_state =
  story :: "flowable list"
  toc :: "(string \<times> nat \<times> string) list"
  in_list :: bool
  list_level :: nat
  table_data :: "string list list"

text \<open>The bullet glyphs U+2022 and U+25E6 lie outside the 8-bit character type; they occur
  only in emitted text, never in text the parser inspects, and are written as their UTF-8
  bytes.\<close>

definition bullet :: string where
  "bullet = [CHR 0xE2, CHR 0x80, CHR 0xA2]"

definition white_bullet :: string where
  "white_bullet = [CHR 0xE2, CHR 0x97, CHR 0xA6]"

definition dq :: string where
  "dq = [CHR 0x22]"

definition anchor :: "nat \<Rightarrow> string" where
  "anchor i = ''section_'' @ str_of_nat i"

definition anchor_tag :: "nat \<Rightarrow> string" where
  "anchor_tag i = ''<a name='' @ dq @ anchor i @ dq @ ''/>''"

text \<open>\<^verbatim>\<open>if table_data: story.append(Table(table_data, colWidths=[100] * len(table_data[0]), ...));
  table_data = []\<close>\<close>

definition pdf_flush_table :: "pdf_state \<Rightarrow> pdf_state" where
  "pdf_flush_table st =
     (case table_data st of
        [] \<Rightarrow> st
      | r # rs \<Rightarrow> st\<lparr>story := story st @ [Table (r # rs) (replicate (length r) 100)],
                      table_data := []\<rparr>)"

text \<open>A heading branch of the loop: the entry for the table of contents, the anchor
  paragraph and the heading paragraph, whose text is the line after its marker.\<close>

definition pdf_heading :: "markup_parser \<Rightarrow> nat \<Rightarrow> string \<Rightarrow> pstyle \<Rightarrow> pdf_state \<Rightarrow> exn + pdf_state" where
  "pdf_heading accepts i title sty st =
     (case new_paragraph accepts (anchor_tag i) BodyText of
        Inl e \<Rightarrow> Inl e
      | Inr a \<Rightarrow>
          (case new_paragraph accepts title sty of
             Inl e \<Rightarrow> Inl e
           | Inr h \<Rightarrow>
               Inr (st\<lparr>toc := toc st @ [(title, length (story st), anchor i)],
                       story := story st @ [a, h],
                       in_list := False\<rparr>)))"

text \<open>One iteration of the main loop of \<^verbatim>\<open>utils.parse_markdown_for_pdf\<close>, for line
  number \<open>i\<close> of the text. A paragraph the markup parser refuses ends the function with
  the \<^verbatim>\<open>ValueError\<close>.\<close>

definition pdf_line :: "markup_parser \<Rightarrow> nat \<Rightarrow> string \<Rightarrow> pdf_state \<Rightarrow> exn + pdf_state" where
  "pdf_line accepts i raw st =
     (let line = strip raw in
      if line = [] then Inr (st\<lparr>story := story st @ [Spacer 1 12]\<rparr>)
      else if startswith ''# '' line then pdf_heading accepts i (drop 2 line) Heading1 st
      else if startswith ''## '' line then pdf_heading accepts i (drop 3 line) Heading2 st
      else if startswith ''### '' line then pdf_heading accepts i (drop 4 line) Heading3 st
      else if startswith ''- '' line \<or> startswith ''* '' line then
        (case new_paragraph accepts
                (concat (replicate (list_level st) ''  '') @ bullet @ '' '' @ drop 2 line)
                BodyText of
           Inl e \<Rightarrow> Inl e
         | Inr p \<Rightarrow> Inr (st\<lparr>story := story st @ [p], in_list := True\<rparr>))
      else if startswith ''  - '' line \<or> startswith ''  * '' line then
        (case new_paragraph accepts (''  '' @ white_bullet @ '' '' @ drop 4 line) BodyText of
           Inl e \<Rightarrow> Inl e
         | Inr p \<Rightarrow> Inr (st\<lparr>list_level := 1, story := story st @ [p], in_list := True\<rparr>))
      else if startswith ''|'' line then
        (let cells = map strip (butlast (tl (split_on (CHR ''|'') line))) in
         Inr (if cells \<noteq> [] \<and> list_all (\<lambda>c. c \<noteq> []) cells
              then st\<lparr>table_data := table_data st @ [cells]\<rparr>
              else st))
      else
        (let st1 = pdf_flush_table st;
             st2 = (if in_list st1
                    then st1\<lparr>in_list := False, list_level := 0,
                             story := story st1 @ [Spacer 1 12]\<rparr>
                    else st1)
         in case new_paragraph accepts line BodyText of
              Inl e \<Rightarrow> Inl e
            | Inr p \<Rightarrow> Inr (st2\<lparr>story := story st2 @ [p]\<rparr>)))"

text \<open>\<^verbatim>\<open>for i, line in enumerate(lines)\<close>, from line number \<open>i\<close> on.\<close>

fun pdf_lines :: "markup_parser \<Rightarrow> nat \<Rightarrow> string list \<Rightarrow> pdf_state \<Rightarrow> exn + pdf_state" where
  "pdf_lines accepts i [] st = Inr st"
| "pdf_lines accepts i (l # ls) st =
     (case pdf_line accepts i l st of
        Inl e \<Rightarrow> Inl e
      | Inr st' \<Rightarrow> pdf_lines accepts (Suc i) ls st')"

definition pdf_init :: "flowable list \<Rightarrow> pdf_state" where
  "pdf_init s0 = \<lparr>story = s0, toc = [], in_list = False, list_level = 0, table_data = []\<rparr>"

text \<open>The main loop on a whole text, from an empty story.\<close>

definition pdf_blocks :: "markup_parser \<Rightarrow> string \<Rightarrow> exn + pdf_state" where
  "pdf_blocks accepts text = pdf_lines accepts 0 (split_on nl text) (pdf_init [])"

text \<open>The texts of the heading paragraphs of a story, in order.\<close>

fun heading_texts :: "flowable list \<Rightarrow> string list" where
  "heading_texts [] = []"
| "heading_texts (Paragraph t sty # fs) =
     (if sty = BodyText then heading_texts fs else t # heading_texts fs)"
| "heading_texts (f # fs) = heading_texts fs"

definition story_headings :: "pdf_state \<Rightarrow> string list" where
  "story_headings st = heading_texts (story st)"

text \<open>
  A markup parser for examples. It accepts plain text (no \<^verbatim>\<open><\<close> and no \<^verbatim>\<open>&\<close>) and the
  anchor tags the parser itself writes, and refuses every other text; the library's
  parser accepts these texts too.
\<close>

definition is_digit :: "char \<Rightarrow> bool" where
  "is_digit c = (48 \<le> (of_char c :: nat) \<and> (of_char c :: nat) \<le> 57)"

definition is_anchor_tag :: "string \<Rightarrow> bool" where
  "is_anchor_tag t =
     (let p = ''<a name='' @ dq @ ''section_'' in
      startswith p t \<and>
      (let r = drop (length p) t in
       takeWhile is_digit r \<noteq> [] \<and> dropWhile is_digit r = dq @ ''/>''))"

definition plain_markup :: markup_parser where
  "plain_markup t = ((CHR ''<'' \<notin> set t \<and> CHR ''&'' \<notin> set t) \<or> is_anchor_tag t)"

section \<open>The chart pre-pass\<close>

text \<open>The directive phrases \<^verbatim>\<open>gr\<aacute>fico de barras con datos:\<close> and
  \<^verbatim>\<open>gr\<aacute>fico de l\<iacute>neas con datos:\<close>; the accented letters are the code points 0xE1 and
  0xED.\<close>

definition bar_phrase :: string where
  "bar_phrase = ''gr'' @ [CHR 0xE1] @ ''fico de barras con datos:''"

definition line_phrase :: string where
  "line_phrase = ''gr'' @ [CHR 0xE1] @ ''fico de l'' @ [CHR 0xED] @ ''neas con datos:''"

datatype chart_kind = Bar | Line

text \<open>
  The dictionary comprehension
  \<^verbatim>\<open>{pair.split(":")[0].strip(): float(pair.split(":")[1].strip()) for pair in data_pairs}\<close>.
  The builtin \<^verbatim>\<open>float\<close> is the parameter \<open>to_float\<close> (\<open>None\<close> when it raises
  \<^verbatim>\<open>ValueError\<close>); the dictionary is an association list in insertion order, a repeated
  key keeping its place and taking the later value. \<open>None\<close> is any exception raised
  inside the comprehension.
\<close>

fun dict_set :: "string \<Rightarrow> 'v \<Rightarrow> (string \<times> 'v) list \<Rightarrow> (string \<times> 'v) list" where
  "dict_set k v [] = [(k, v)]"
| "dict_set k v ((k', v') # kvs) =
     (if k' = k then (k, v) # kvs else (k', v') # dict_set k v kvs)"

fun chart_pairs ::
  "(string \<Rightarrow> 'v option) \<Rightarrow> string list \<Rightarrow> (string \<times> 'v) list \<Rightarrow> (string \<times> 'v) list option" where
  "chart_pairs to_float [] acc = Some acc"
| "chart_pairs to_float (pair # pairs) acc =
     (case split_on (CHR '':'') pair of
        key # value # _ \<Rightarrow>
          (case to_float (strip value) of
             None \<Rightarrow> None
           | Some v \<Rightarrow> chart_pairs to_float pairs (dict_set (strip key) v acc))
      | _ \<Rightarrow> None)"

text \<open>\<^verbatim>\<open>line.split("con datos:")[1]\<close> raises \<^verbatim>\<open>IndexError\<close> when the split has a
  single element; the statement stands outside the \<^verbatim>\<open>try\<close>.\<close>

definition chart_data_str :: "string \<Rightarrow> exn + string" where
  "chart_data_str line =
     (case split_str ''con datos:'' line of
        _ # seg # _ \<Rightarrow> Inr (strip seg)
      | _ \<Rightarrow> Inl IndexError)"

type_synonym 'v chart = "chart_kind option \<times> (string \<times> 'v) list option"

text \<open>One iteration of the detection loop, on the pair \<^verbatim>\<open>(chart_type, chart_data)\<close>.\<close>

definition chart_line :: "(string \<Rightarrow> 'v option) \<Rightarrow> string \<Rightarrow> 'v chart \<Rightarrow> exn + 'v chart" where
  "chart_line to_float raw ch =
     (let line = strip raw in
      if contains bar_phrase (lower line) then
        (case chart_data_str line of
           Inl e \<Rightarrow> Inl e
         | Inr data_str \<Rightarrow>
             Inr (Some Bar, chart_pairs to_float (split_on (CHR '','') data_str) []))
      else if contains line_phrase (lower line) then
        (case chart_data_str line of
           Inl e \<Rightarrow> Inl e
         | Inr data_str \<Rightarrow>
             Inr (Some Line, chart_pairs to_float (split_on (CHR '','') data_str) []))
      else Inr ch)"

fun chart_lines :: "(string \<Rightarrow> 'v option) \<Rightarrow> string list \<Rightarrow> 'v chart \<Rightarrow> exn + 'v chart" where
  "chart_lines to_float [] ch = Inr ch"
| "chart_lines to_float (l # ls) ch =
     (case chart_line to_float l ch of
        Inl e \<Rightarrow> Inl e
      | Inr ch' \<Rightarrow> chart_lines to_float ls ch')"

text \<open>The pre-pass of \<^verbatim>\<open>parse_markdown_for_pdf\<close> on a whole text.\<close>

definition detect_chart :: "(string \<Rightarrow> 'v option) \<Rightarrow> string \<Rightarrow> exn + 'v chart" where
  "detect_chart to_float text = chart_lines to_float (split_on nl text) (None, None)"

text \<open>A reading of \<^verbatim>\<open>float\<close> on unsigned decimal integers, enough for the sample
  directives; every other string is refused.\<close>

fun digits_value :: "string \<Rightarrow> nat \<Rightarrow> nat option" where
  "digits_value [] acc = Some acc"
| "digits_value (c # cs) acc =
     (let n = (of_char c :: nat) in
      if 48 \<le> n \<and> n \<le> 57 then digits_value cs (10 * acc + (n - 48)) else None)"

definition decimal_float :: "string \<Rightarrow> nat option" where
  "decimal_float s = (if s = [] then None else digits_value s 0)"

section \<open>The whole flow-document parser\<close>

text \<open>What \<^verbatim>\<open>parse_markdown_for_pdf\<close> takes from outside: the translation service, the
  builtin \<^verbatim>\<open>float\<close>, the markup parser of the document library, whether the logo file
  is given, exists and loads, and whether the plotting helper returns a non-empty image
  for a chart.\<close>

record ('e, 'v) pdf_env =
  translator :: "'e translator"
  to_float :: "string \<Rightarrow> 'v option"
  markup :: markup_parser
  logo_loads :: bool
  chart_renders :: "(string \<times> 'v) list \<Rightarrow> chart_kind option \<Rightarrow> bool"

definition toc_link_text :: "string \<times> nat \<times> string \<Rightarrow> string" where
  "toc_link_text e =
     (case e of (title, pos, anch) \<Rightarrow>
        ''<link href='' @ dq @ ''#'' @ anch @ dq @ '' color='' @ dq @ ''blue'' @ dq
        @ ''>'' @ title @ ''</link>'')"

definition toc_title_src :: string where
  "toc_title_src = [CHR 0xCD] @ ''ndice''"

text \<open>The paragraphs of a list of texts, built in order; the first refusal ends it.\<close>

fun new_paragraphs :: "markup_parser \<Rightarrow> string list \<Rightarrow> pstyle \<Rightarrow> exn + flowable list" where
  "new_paragraphs accepts [] sty = Inr []"
| "new_paragraphs accepts (t # ts) sty =
     (case new_paragraph accepts t sty of
        Inl e \<Rightarrow> Inl e
      | Inr p \<Rightarrow>
          (case new_paragraphs accepts ts sty of
             Inl e \<Rightarrow> Inl e
           | Inr ps \<Rightarrow> Inr (p # ps)))"

text \<open>\<^verbatim>\<open>utils.parse_markdown_for_pdf\<close>: logo, chart pre-pass, main loop, pending table,
  chart image, and the table of contents inserted at the front (each link is inserted at
  index 1, so the links stand in reverse order of their building).\<close>

definition parse_markdown_for_pdf ::
  "('e, 'v) pdf_env \<Rightarrow> string \<Rightarrow> string \<Rightarrow> exn + flowable list" where
  "parse_markdown_for_pdf env text language =
     (let lines = split_on nl text;
          s0 = (if logo_loads env then [Image LogoFile 100 50, Spacer 1 20] else [])
      in case chart_lines (to_float env) lines (None, None) of
           Inl e \<Rightarrow> Inl e
         | Inr (chart_type, chart_data) \<Rightarrow>
             (case pdf_lines (markup env) 0 lines (pdf_init s0) of
                Inl e \<Rightarrow> Inl e
              | Inr st_loop \<Rightarrow>
                  (let st = pdf_flush_table st_loop;
                       s1 = story st @
                            (case chart_data of
                               None \<Rightarrow> []
                             | Some d \<Rightarrow>
                                 if d \<noteq> [] \<and> chart_renders env d chart_type
                                 then [Image ChartPng 400 300, Spacer 1 20] else []);
                       toc_title = (case translate_text (translator env) toc_title_src language of
                                      Inl e \<Rightarrow> toc_title_src | Inr t \<Rightarrow> t)
                   in case new_paragraph (markup env) toc_title Heading1 of
                        Inl e \<Rightarrow> Inl e
                      | Inr title \<Rightarrow>
                          (case new_paragraphs (markup env) (map toc_link_text (toc st)) BodyText of
                             Inl e \<Rightarrow> Inl e
                           | Inr links \<Rightarrow> Inr (title # rev links @ Spacer 1 20 # s1)))))"

section \<open>The word-processing (DOCX) block parser\<close>

datatype dstyle = CustomHeading1 | CustomHeading2 | CustomHeading3 | CustomNormal | CustomList

text \<open>A paragraph carries its text, its style and, where the parser sets it on the
  paragraph, the left indent in half inches; the logo is a picture.\<close>

datatype dblock =
    DParagraph string dstyle "nat option"
  | DTable "string list list"
  | DSpacing
  | DPicture

record docx_state =
  doc :: "dblock list"
  section_number :: nat
  subsection_number :: nat
  in_list_docx :: bool
  list_level_docx :: nat
  in_table :: bool
  table_data_docx :: "string list list"

text \<open>
  \<^verbatim>\<open>DocumentGenerator._add_table_to_docx\<close> returns at once on an empty table. Otherwise
  it adds a table of \<^verbatim>\<open>len(table_data[0])\<close> columns and fills it cell by cell. At the first
  cell of the header row it calls \<^verbatim>\<open>cloneNode\<close> on an element of the document tree and
  then \<^verbatim>\<open>parse_xml\<close> and \<^verbatim>\<open>nsdecls\<close>, two names that \<^verbatim>\<open>document_generator.py\<close> never
  imports, so the statement raises; with an empty header row a later row with a cell has
  no column to go to and raises as well. The routine therefore raises on every table that
  has a cell. Only a table without any cell passes the loop, and gets the spacing
  paragraph after it.
\<close>

definition add_table_to_docx :: "dblock list \<Rightarrow> string list list \<Rightarrow> exn + dblock list" where
  "add_table_to_docx d rows =
     (if rows = [] then Inr d
      else if list_ex (\<lambda>row. row \<noteq> []) rows then Inl TableError
      else Inr (d @ [DTable rows, DSpacing]))"

text \<open>\<^verbatim>\<open>if table_data: self._add_table_to_docx(doc, table_data); table_data = [];
  in_table = False\<close>\<close>

definition docx_flush_table :: "docx_state \<Rightarrow> exn + docx_state" where
  "docx_flush_table st =
     (if table_data_docx st \<noteq> []
      then (case add_table_to_docx (doc st) (table_data_docx st) of
              Inl e \<Rightarrow> Inl e
            | Inr d \<Rightarrow> Inr (st\<lparr>doc := d, table_data_docx := [], in_table := False\<rparr>))
      else Inr st)"

text \<open>One iteration of the loop of \<^verbatim>\<open>DocumentGenerator.parse_markdown_for_docx\<close>.\<close>

definition docx_line :: "string \<Rightarrow> docx_state \<Rightarrow> exn + docx_state" where
  "docx_line raw st =
     (let line = strip raw in
      if line = [] then (if in_table st then docx_flush_table st else Inr st)
      else if startswith ''# '' line then
        Inr (st\<lparr>section_number := section_number st + 1,
                subsection_number := 0,
                doc := doc st @
                  [DParagraph (str_of_nat (section_number st + 1) @ ''. '' @ strip (drop 2 line))
                     CustomHeading1 None],
                in_list_docx := False\<rparr>)
      else if startswith ''## '' line then
        Inr (st\<lparr>subsection_number := subsection_number st + 1,
                doc := doc st @
                  [DParagraph (str_of_nat (section_number st) @ ''.''
                               @ str_of_nat (subsection_number st + 1) @ '' ''
                               @ strip (drop 3 line))
                     CustomHeading2 None],
                in_list_docx := False\<rparr>)
      else if startswith ''### '' line then
        Inr (st\<lparr>doc := doc st @ [DParagraph (strip (drop 4 line)) CustomHeading3 None],
                in_list_docx := False\<rparr>)
      else if startswith ''- '' line \<or> startswith ''* '' line then
        (let lvl = (if in_list_docx st then list_level_docx st else 1) in
         Inr (st\<lparr>in_list_docx := True, list_level_docx := lvl,
                 doc := doc st @ [DParagraph (strip (drop 2 line)) CustomList (Some lvl)]\<rparr>))
      else if startswith ''  - '' line \<or> startswith ''  * '' line then
        Inr (st\<lparr>in_list_docx := True, list_level_docx := 2,
                doc := doc st @ [DParagraph (strip (drop 4 line)) CustomList (Some 2)]\<rparr>)
      else
        (let st1 = st\<lparr>in_list_docx := False, list_level_docx := 0\<rparr> in
         if startswith ''|'' line then
           (let cells = filter (\<lambda>c. c \<noteq> []) (map strip (split_on (CHR ''|'') line));
                st2 = st1\<lparr>in_table := True\<rparr>
            in Inr (if cells \<noteq> [] then st2\<lparr>table_data_docx := table_data_docx st2 @ [cells]\<rparr>
                    else st2))
         else
           (case (if in_table st1 then docx_flush_table st1 else Inr st1) of
              Inl e \<Rightarrow> Inl e
            | Inr st3 \<Rightarrow> Inr (st3\<lparr>doc := doc st3 @ [DParagraph line CustomNormal None]\<rparr>))))"

fun docx_lines :: "string list \<Rightarrow> docx_state \<Rightarrow> exn + docx_state" where
  "docx_lines [] st = Inr st"
| "docx_lines (l # ls) st =
     (case docx_line l st of
        Inl e \<Rightarrow> Inl e
      | Inr st' \<Rightarrow> docx_lines ls st')"

definition docx_init :: "dblock list \<Rightarrow> docx_state" where
  "docx_init d0 = \<lparr>doc = d0, section_number = 0, subsection_number = 0, in_list_docx = False,
                   list_level_docx = 0, in_table = False, table_data_docx = []\<rparr>"

text \<open>\<^verbatim>\<open>DocumentGenerator.parse_markdown_for_docx\<close> on a document holding the blocks
  \<open>d0\<close>: the logo paragraph when the logo file is given and exists, the loop, and the last
  pending table. The style definitions at the head of the method add no block.\<close>

definition parse_markdown_for_docx :: "bool \<Rightarrow> dblock list \<Rightarrow> string \<Rightarrow> exn + dblock list" where
  "parse_markdown_for_docx logo d0 text =
     (case docx_lines (split_on nl text)
             (docx_init (if logo then d0 @ [DPicture] else d0)) of
        Inl e \<Rightarrow> Inl e
      | Inr st \<Rightarrow>
          if in_table st \<and> table_data_docx st \<noteq> []
          then add_table_to_docx (doc st) (table_data_docx st)
          else Inr (doc st))"

text \<open>The texts of the heading paragraphs of a document, in order.\<close>

fun docx_heading_texts :: "dblock list \<Rightarrow> string list" where
  "docx_heading_texts [] = []"
| "docx_heading_texts (DParagraph t sty ind # bs) =
     (if sty \<in> set [CustomHeading1, CustomHeading2, CustomHeading3]
      then t # docx_heading_texts bs else docx_heading_texts bs)"
| "docx_heading_texts (b # bs) = docx_heading_texts bs"

section \<open>The generation orchestrator\<close>

subsection \<open>Prompt classification\<close>

text \<open>
  One pattern of \<^verbatim>\<open>is_conversational_prompt\<close>, \<^verbatim>\<open>^\s*word\s*$\<close> or, with the question
  mark allowed, \<^verbatim>\<open>^\s*word\s*\??\s*$\<close>, matched at the start of the string. The word
  begins with a letter and \<^verbatim>\<open>?\<close> is no whitespace, so the match is forced: all leading
  whitespace, the word, whitespace, the optional question mark, whitespace, end.
\<close>

definition greeting_match :: "string \<Rightarrow> bool \<Rightarrow> string \<Rightarrow> bool" where
  "greeting_match word question s =
     (let a = dropWhile is_space s in
      startswith word a \<and>
      (let b = dropWhile is_space (drop (length word) a);
           c = (if question \<and> startswith ''?'' b then tl b else b)
       in dropWhile is_space c = []))"

text \<open>The six patterns; \<^verbatim>\<open>c\<oacute>mo est\<aacute>s\<close> and \<^verbatim>\<open>qu\<eacute> tal\<close> carry the code points 0xF3, 0xE1
  and 0xE9.\<close>

definition conversational_keywords :: "(string \<times> bool) list" where
  "conversational_keywords =
     [(''hola'', False),
      (''c'' @ [CHR 0xF3] @ ''mo est'' @ [CHR 0xE1] @ ''s'', True),
      (''hey'', False),
      (''hi'', False),
      (''qu'' @ [CHR 0xE9] @ '' tal'', True),
      (''hello'', False)]"

text \<open>\<^verbatim>\<open>DocumentGenerator.is_conversational_prompt\<close>. The prompt is lower-cased before the
  match, so the flag \<^verbatim>\<open>re.IGNORECASE\<close> changes nothing.\<close>

definition is_conversational_prompt :: "string \<Rightarrow> bool" where
  "is_conversational_prompt prompt =
     (let p = strip (lower prompt) in
      list_ex (\<lambda>(word, question). greeting_match word question p) conversational_keywords)"

subsection \<open>Messages and wording\<close>

text \<open>A conversation turn is a role and a content; a completion request is the message
  list and the token budget (the model name and the temperature 0.5 are the same
  constants in every request).\<close>

type_synonym turn = "string \<times> string"

record request =
  messages :: "turn list"
  max_tokens :: nat

text \<open>
  The long instruction texts that \<^verbatim>\<open>generate\<close> assembles, and the entries of
  \<^verbatim>\<open>config.LEVEL_INSTRUCTIONS\<close> and \<^verbatim>\<open>config.TEMPLATES\<close>, are fixed prose; the model takes
  them as a parameter and keeps how they are put together.
\<close>

record wording =
  chat_persona_intro :: string   \<comment> \<open>up to \<^verbatim>\<open>Idioma: \<close>\<close>
  chat_persona_rest :: string    \<comment> \<open>after the language\<close>
  doc_persona :: string          \<comment> \<open>up to \<^verbatim>\<open>Genera el contenido en \<close>\<close>
  doc_rules :: string            \<comment> \<open>the structuring rules\<close>
  structure_basico :: string
  structure_medio :: string
  structure_profesional :: string
  headings_note :: string        \<comment> \<open>the note for the levels medio and profesional\<close>
  modification_note :: string    \<comment> \<open>last sentence of the context block\<close>
  template_intro :: string       \<comment> \<open>\<^verbatim>\<open> Usa esta plantilla como base:\<close> and a line feed\<close>
  corrective_clause :: string    \<comment> \<open>appended to the user message for the retry\<close>
  instructions_basico :: string
  instructions_medio :: string
  instructions_profesional :: string
  template_carta_formal :: string
  template_contrato :: string
  template_informe :: string
  template_factura :: string

definition LEVEL_INSTRUCTIONS :: "wording \<Rightarrow> (string \<times> string) list" where
  "LEVEL_INSTRUCTIONS w =
     [(''basico'', instructions_basico w), (''medio'', instructions_medio w),
      (''profesional'', instructions_profesional w)]"

definition TEMPLATES :: "wording \<Rightarrow> (string \<times> string) list" where
  "TEMPLATES w =
     [(''carta_formal'', template_carta_formal w), (''contrato'', template_contrato w),
      (''informe'', template_informe w), (''factura'', template_factura w)]"

text \<open>\<^verbatim>\<open>utils.summarize_history\<close>\<close>

definition summary_line :: "turn \<Rightarrow> string" where
  "summary_line m =
     (case m of (role, content) \<Rightarrow>
        if role = ''user'' then ''- El usuario dijo: '' @ take 100 content @ ''...'' @ [nl]
        else if role = ''assistant''
        then ''- La IA respondi'' @ [CHR 0xF3] @ '': '' @ take 100 content @ ''...'' @ [nl]
        else [])"

definition summarize_history :: "turn list \<Rightarrow> string" where
  "summarize_history history =
     (if history = [] then []
      else ''Contexto previo de la conversaci'' @ [CHR 0xF3] @ ''n:'' @ [nl]
           @ concat (map summary_line history))"

subsection \<open>State\<close>

record session_context =
  last_document :: "string option"
  last_prompt :: "string option"
  last_doc_type :: "string option"
  last_template :: "string option"
  last_level :: "string option"
  last_language :: "string option"

definition blank_context :: session_context where
  "blank_context = \<lparr>last_document = None, last_prompt = None, last_doc_type = None,
                     last_template = None, last_level = None, last_language = None\<rparr>"

text \<open>
  The generator's state: the response cache, as the list of its live entries from the
  least to the most recently used; the session contexts; and the completion requests issued so far (a trace the
  program does not keep, added to tell how often the model was called).
\<close>

record gen_state =
  cache :: "(string \<times> string) list"
  conversation_context :: "string \<rightharpoonup> session_context"
  requests :: "request list"

text \<open>\<^verbatim>\<open>self.cache[key] = value\<close> on \<^verbatim>\<open>TTLCache(maxsize=100, ttl=3600)\<close>: at capacity the
  entry at the front of the list (the least recently used one) leaves; the new entry goes
  to the end. Expiry is the passing of time between calls and is no part of a call.\<close>

definition cache_set :: "string \<Rightarrow> string \<Rightarrow> (string \<times> string) list \<Rightarrow> (string \<times> string) list" where
  "cache_set k v c =
     (let kept = filter (\<lambda>(k', v'). k' \<noteq> k) c;
          room = (if map_of c k = None \<and> length c \<ge> 100 then tl kept else kept)
      in room @ [(k, v)])"

text \<open>Reading \<^verbatim>\<open>self.cache[key]\<close> moves the entry to the end of the list: it becomes the
  most recently used one, and the last to leave at capacity. The test
  \<^verbatim>\<open>key in self.cache\<close> moves nothing.\<close>

definition cache_touch :: "string \<Rightarrow> (string \<times> string) list \<Rightarrow> (string \<times> string) list" where
  "cache_touch k c =
     (case map_of c k of
        None \<Rightarrow> c
      | Some v \<Rightarrow> filter (\<lambda>(k', v'). k' \<noteq> k) c @ [(k, v)])"

text \<open>Lines 109 to 117 of \<^verbatim>\<open>generate\<close>: a session without a context gets the blank one.\<close>

definition ensure_context :: "(string \<rightharpoonup> session_context) \<Rightarrow> string \<Rightarrow> (string \<rightharpoonup> session_context)" where
  "ensure_context ctx session_id =
     (case ctx session_id of None \<Rightarrow> ctx(session_id \<mapsto> blank_context) | Some c \<Rightarrow> ctx)"

text \<open>The fields a session shows: those of its context, or the blank ones when it has
  none.\<close>

definition context_of :: "(string \<rightharpoonup> session_context) \<Rightarrow> string \<Rightarrow> session_context" where
  "context_of ctx session_id = (case ctx session_id of None \<Rightarrow> blank_context | Some c \<Rightarrow> c)"

subsection \<open>The environment\<close>

text \<open>What the completion call can do: return a text, raise one of the three provider
  errors the method names, or fail in any other way (which includes a response without
  content).\<close>

datatype completion =
    Completion string
  | AuthenticationError
  | RateLimitError
  | APIConnectionError
  | OtherFailure

text \<open>
  The environment of \<^verbatim>\<open>generate\<close>: the wording; \<^verbatim>\<open>json.dumps(fields, sort_keys=True)\<close>;
  the SHA-256 hex digest of the serialised history; and the model provider, which answers
  a request in view of the requests it has received before.
\<close>

record env =
  texts :: wording
  dumps_fields :: "(string \<times> string) list \<Rightarrow> string"
  history_digest :: "turn list \<Rightarrow> string"
  client :: "request list \<Rightarrow> request \<Rightarrow> completion"

text \<open>\<^verbatim>\<open>utils.generate_cache_key\<close>\<close>

definition generate_cache_key ::
  "env \<Rightarrow> string \<Rightarrow> string \<Rightarrow> string \<Rightarrow> (string \<times> string) list \<Rightarrow> string \<Rightarrow> turn list \<Rightarrow> string" where
  "generate_cache_key e prompt doc_type template field_map level history =
     prompt @ '':'' @ doc_type @ '':'' @ template @ '':'' @ dumps_fields e field_map @ '':''
     @ level @ '':'' @ history_digest e history"

subsection \<open>Building the request\<close>

text \<open>How an f-string shows a context field: \<^verbatim>\<open>None\<close> for an unset one.\<close>

definition py_str :: "string option \<Rightarrow> string" where
  "py_str v = (case v of None \<Rightarrow> ''None'' | Some s \<Rightarrow> s)"

definition truthy :: "string option \<Rightarrow> bool" where
  "truthy v = (case v of None \<Rightarrow> False | Some s \<Rightarrow> s \<noteq> [])"

definition context_summary :: "wording \<Rightarrow> session_context \<Rightarrow> bool \<Rightarrow> string" where
  "context_summary w c is_conversational =
     (if truthy (last_document c) \<and> \<not> is_conversational
      then [nl] @ ''Contexto del documento anterior:'' @ [nl]
           @ ''- Tipo de documento: '' @ py_str (last_doc_type c) @ [nl]
           @ ''- Plantilla: '' @ py_str (last_template c) @ [nl]
           @ ''- Nivel: '' @ py_str (last_level c) @ [nl]
           @ ''- Idioma: '' @ py_str (last_language c) @ [nl]
           @ ''- Contenido previo (resumen): '' @ take 200 (py_str (last_document c))
           @ ''...'' @ [nl]
           @ modification_note w
      else [])"

text \<open>The system message. For a document request \<^verbatim>\<open>LEVEL_INSTRUCTIONS[level]\<close> raises
  \<^verbatim>\<open>KeyError\<close> on a level outside the table.\<close>

definition system_message ::
  "wording \<Rightarrow> bool \<Rightarrow> string \<Rightarrow> string \<Rightarrow> string \<Rightarrow> string \<Rightarrow> string \<Rightarrow> exn + string" where
  "system_message w is_conversational level language template history_summary ctx_summary =
     (if is_conversational
      then Inr (chat_persona_intro w @ language @ chat_persona_rest w)
      else (case map_of (LEVEL_INSTRUCTIONS w) level of
              None \<Rightarrow> Inl KeyError
            | Some instr \<Rightarrow>
                Inr (doc_persona w @ language @ ''. '' @ instr @ '' '' @ doc_rules w
                     @ history_summary @ [nl] @ ctx_summary
                     @ (if level = ''basico'' then structure_basico w
                        else if level = ''medio'' then structure_medio w
                        else if level = ''profesional'' then structure_profesional w
                        else [])
                     @ (if level \<in> set [''medio'', ''profesional''] then headings_note w else [])
                     @ (case map_of (TEMPLATES w) template of
                          None \<Rightarrow> []
                        | Some t \<Rightarrow> template_intro w @ t))))"

definition token_budget :: "(string \<times> nat) list" where
  "token_budget = [(''basico'', 1000), (''medio'', 2000), (''profesional'', 4000)]"

text \<open>Lines 105 to 209 of \<^verbatim>\<open>generate\<close>, given the session's context: the first request,
  or the \<^verbatim>\<open>KeyError\<close> of a level lookup.\<close>

definition build_request ::
  "env \<Rightarrow> string \<Rightarrow> string \<Rightarrow> string \<Rightarrow> string \<Rightarrow> turn list \<Rightarrow> session_context \<Rightarrow> exn + request" where
  "build_request e prompt template level language history c =
     (let is_conversational = is_conversational_prompt prompt;
          history_summary = (if is_conversational then [] else summarize_history history)
      in case system_message (texts e) is_conversational level language template
                history_summary (context_summary (texts e) c is_conversational) of
           Inl x \<Rightarrow> Inl x
         | Inr sm \<Rightarrow>
             (case (if is_conversational then Some 200 else map_of token_budget level) of
                None \<Rightarrow> Inl KeyError
              | Some budget \<Rightarrow>
                  Inr \<lparr>messages = (''system'', sm) # history @ [(''user'', prompt)],
                       max_tokens = budget\<rparr>))"

text \<open>\<^verbatim>\<open>messages[-1]["content"] += ...\<close>: the retry request. The message list of a request
  built above ends with the user turn.\<close>

definition retry_request :: "wording \<Rightarrow> request \<Rightarrow> request" where
  "retry_request w r =
     (case rev (messages r) of
        [] \<Rightarrow> r
      | (role, content) # earlier \<Rightarrow>
          r\<lparr>messages := rev earlier @ [(role, content @ corrective_clause w)]\<rparr>)"

subsection \<open>The generate method\<close>

datatype cause =
    InvalidAfterRetry verdict_msg  \<comment> \<open>the \<^verbatim>\<open>ValueError\<close> after the second validation\<close>
  | ProviderFailure
  | ValidatorKeyError

datatype gen_error =
    LevelKeyError            \<comment> \<open>raised before the \<^verbatim>\<open>try\<close>, not wrapped\<close>
  | AuthFailed
  | QuotaExceeded
  | ConnectionFailed
  | GenerationFailed cause   \<comment> \<open>\<^verbatim>\<open>Exception("Error al generar el texto: ...")\<close>\<close>

text \<open>One completion call and the reading of its text,
  \<^verbatim>\<open>response.choices[0].message.content.strip()\<close>, with the \<^verbatim>\<open>except\<close> clauses of
  \<^verbatim>\<open>generate\<close> applied to a failure. The request is added to the trace.\<close>

definition complete :: "env \<Rightarrow> request \<Rightarrow> gen_state \<Rightarrow> (gen_error + string) \<times> gen_state" where
  "complete e r s =
     (let s' = s\<lparr>requests := requests s @ [r]\<rparr> in
      case client e (requests s) r of
        Completion content \<Rightarrow> (Inr (strip content), s')
      | AuthenticationError \<Rightarrow> (Inl AuthFailed, s')
      | RateLimitError \<Rightarrow> (Inl QuotaExceeded, s')
      | APIConnectionError \<Rightarrow> (Inl ConnectionFailed, s')
      | OtherFailure \<Rightarrow> (Inl (GenerationFailed ProviderFailure), s'))"

text \<open>Lines 239 to 252: the context update, skipped for a conversational prompt, the cache
  write and the return.\<close>

definition store_result ::
  "string \<Rightarrow> string \<Rightarrow> bool \<Rightarrow> string \<Rightarrow> string \<Rightarrow> string \<Rightarrow> string \<Rightarrow> string \<Rightarrow> string
     \<Rightarrow> gen_state \<Rightarrow> (gen_error + string \<times> bool) \<times> gen_state" where
  "store_result cache_key generated_text is_conversational prompt doc_type template level
       language session_id s =
     (let s1 = (if is_conversational then s
                else s\<lparr>conversation_context := (conversation_context s)(session_id \<mapsto>
                         \<lparr>last_document = Some generated_text, last_prompt = Some prompt,
                          last_doc_type = Some doc_type, last_template = Some template,
                          last_level = Some level, last_language = Some language\<rparr>)\<rparr>)
      in (Inr (generated_text, is_conversational),
          s1\<lparr>cache := cache_set cache_key generated_text (cache s1)\<rparr>))"

text \<open>Lines 226 to 237: the retry with the corrective clause and the second validation,
  whose failure is the \<^verbatim>\<open>ValueError\<close>. The result is the text that passed.\<close>

definition retry_attempt ::
  "env \<Rightarrow> request \<Rightarrow> string \<Rightarrow> bool \<Rightarrow> gen_state \<Rightarrow> (gen_error + string) \<times> gen_state" where
  "retry_attempt e r1 level is_conversational s1 =
     (case complete e (retry_request (texts e) r1) s1 of
        (Inl err, s2) \<Rightarrow> (Inl err, s2)
      | (Inr text2, s2) \<Rightarrow>
          (case validate_generated_text text2 level is_conversational of
             Inl x \<Rightarrow> (Inl (GenerationFailed ValidatorKeyError), s2)
           | Inr (is_valid, message) \<Rightarrow>
               if \<not> is_valid then (Inl (GenerationFailed (InvalidAfterRetry message)), s2)
               else (Inr text2, s2)))"

text \<open>Lines 216 to 237: the first completion, its validation and, for a document request
  whose text is invalid, the retry. A \<^verbatim>\<open>KeyError\<close> of the validator is raised inside the
  \<^verbatim>\<open>try\<close> and leaves as the wrapped generic error.\<close>

definition first_attempt ::
  "env \<Rightarrow> request \<Rightarrow> string \<Rightarrow> bool \<Rightarrow> gen_state \<Rightarrow> (gen_error + string) \<times> gen_state" where
  "first_attempt e r1 level is_conversational s0 =
     (case complete e r1 s0 of
        (Inl err, s1) \<Rightarrow> (Inl err, s1)
      | (Inr text1, s1) \<Rightarrow>
          (case validate_generated_text text1 level is_conversational of
             Inl x \<Rightarrow> (Inl (GenerationFailed ValidatorKeyError), s1)
           | Inr (is_valid, message) \<Rightarrow>
               if \<not> is_valid \<and> \<not> is_conversational
               then retry_attempt e r1 level is_conversational s1
               else (Inr text1, s1)))"

text \<open>\<^verbatim>\<open>DocumentGenerator.generate\<close>: classification, context initialisation, request
  building, the cache check, and on a miss the attempts above followed by the context
  update and the cache write. After the initialisation the session has a context, so the
  lookup \<^verbatim>\<open>self.conversation_context[session_id]\<close> is \<open>context_of\<close> on the
  initialised map.\<close>

definition generate ::
  "env \<Rightarrow> string \<Rightarrow> string \<Rightarrow> string \<Rightarrow> (string \<times> string) list \<Rightarrow> string \<Rightarrow> string \<Rightarrow> turn list
     \<Rightarrow> string \<Rightarrow> gen_state \<Rightarrow> (gen_error + string \<times> bool) \<times> gen_state" where
  "generate e prompt doc_type template field_map level language history session_id s =
     (let is_conversational = is_conversational_prompt prompt;
          s0 = s\<lparr>conversation_context := ensure_context (conversation_context s) session_id\<rparr>;
          cache_key = generate_cache_key e prompt doc_type template field_map level history
      in case build_request e prompt template level language history
                (context_of (conversation_context s0) session_id) of
           Inl x \<Rightarrow> (Inl LevelKeyError, s0)
         | Inr r1 \<Rightarrow>
             (case map_of (cache s0) cache_key of
                Some cached \<Rightarrow>
                  (Inr (cached, is_conversational),
                   s0\<lparr>cache := cache_touch cache_key (cache s0)\<rparr>)
              | None \<Rightarrow>
                  (case first_attempt e r1 level is_conversational s0 of
                     (Inl err, s1) \<Rightarrow> (Inl err, s1)
                   | (Inr generated_text, s1) \<Rightarrow>
                       store_result cache_key generated_text is_conversational prompt doc_type
                         template level language session_id s1)))"

text \<open>An environment for examples: every instruction text empty, constant serialisers,
  and a provider that answers every request with the same text.\<close>

definition plain_wording :: wording where
  "plain_wording =
     \<lparr>chat_persona_intro = [], chat_persona_rest = [], doc_persona = [], doc_rules = [],
      structure_basico = [], structure_medio = [], structure_profesional = [],
      headings_note = [], modification_note = [], template_intro = [],
      corrective_clause = ''!'', instructions_basico = [], instructions_medio = [],
      instructions_profesional = [], template_carta_formal = [], template_contrato = [],
      template_informe = [], template_factura = []\<rparr>"

definition constant_reply :: "string \<Rightarrow> request list \<Rightarrow> request \<Rightarrow> completion" where
  "constant_reply t log r = Completion t"

definition example_env :: "string \<Rightarrow> env" where
  "example_env t =
     \<lparr>texts = plain_wording, dumps_fields = (\<lambda>f. ''{}''), history_digest = (\<lambda>h. ''0''),
      client = constant_reply t\<rparr>"

definition fresh_state :: gen_state where
  "fresh_state = \<lparr>cache = [], conversation_context = Map.empty, requests = []\<rparr>"

definition fifty_words :: string where
  "fifty_words = concat (replicate 49 ''a '') @ ''a''"

text \<open>The state after a first document request answered with fifty words, and a reply
  of 501 words.\<close>

definition after_first_call :: gen_state where
  "after_first_call =
     snd (generate (example_env fifty_words) ''Redacta un informe'' ''pdf'' [] [] ''basico''
            ''es'' [] ''s1'' fresh_state)"

definition long_reply :: string where
  "long_reply = concat (replicate 500 ''a '') @ ''a''"

section \<open>Sample inputs and line classes\<close>

text \<open>The five heading lines of the specification's example, and the same headings with
  a paragraph, a bullet item and a blank line between them.\<close>

definition sample_headings :: string where
  "sample_headings = ''# A'' @ [nl] @ ''## B'' @ [nl] @ ''## C'' @ [nl] @ ''# D'' @ [nl] @ ''## E''"

definition sample_interleaved :: string where
  "sample_interleaved = ''# A'' @ [nl] @ ''texto'' @ [nl] @ ''## B'' @ [nl] @ ''- item'' @ [nl]
     @ ''## C'' @ [nl] @ [nl] @ ''# D'' @ [nl] @ ''otro texto'' @ [nl] @ ''## E''"

text \<open>A paragraph line: a trimmed line that no earlier rule of the block parser takes
  (not blank, no heading, bullet or table-row prefix).\<close>

definition is_paragraph_line :: "string \<Rightarrow> bool" where
  "is_paragraph_line line =
     (line \<noteq> [] \<and> \<not> startswith ''# '' line \<and> \<not> startswith ''## '' line
      \<and> \<not> startswith ''### '' line \<and> \<not> startswith ''- '' line \<and> \<not> startswith ''* '' line
      \<and> \<not> startswith ''  - '' line \<and> \<not> startswith ''  * '' line \<and> \<not> startswith ''|'' line)"

text \<open>The chart directive of the specification's example, and a directive whose words
  \<^verbatim>\<open>Con Datos:\<close> are capitalised.\<close>

definition sample_directive :: string where
  "sample_directive = ''Aqu'' @ [CHR 0xED] @ '' un gr'' @ [CHR 0xE1]
     @ ''fico de barras con datos: Enero:10, Febrero:20''"

definition capitalised_directive :: string where
  "capitalised_directive = ''Gr'' @ [CHR 0xE1] @ ''fico de barras Con Datos: Enero:10, Febrero:20''"

section \<open>Properties of the validator\<close>

subsection \<open>What the search pattern accepts\<close>

lemma marker_split:
  "take (length m) s = m \<Longrightarrow> drop (length m) s = c # post \<Longrightarrow> s = m @ c # post"
  by (metis append_take_drop_id)

lemma has_markerI: "s = pre @ ''# '' @ c # post \<Longrightarrow> c \<noteq> nl \<Longrightarrow> has_marker s"
  unfolding has_marker_def by blast

lemma marker_then_dot_split:
  "marker_then_dot m s \<Longrightarrow> \<exists>c post. s = m @ c # post \<and> c \<noteq> nl"
  unfolding marker_then_dot_def startswith_def
  by (cases "drop (length m) s") (auto dest: marker_split)

lemma heading_group_marker: "heading_group s \<Longrightarrow> has_marker s"
proof -
  assume "heading_group s"
  then consider "marker_then_dot ''# '' s" | "marker_then_dot ''## '' s"
    | "marker_then_dot ''### '' s"
    unfolding heading_group_def by blast
  then show ?thesis
  proof cases
    case 1
    then obtain c post where "s = [] @ ''# '' @ c # post" "c \<noteq> nl"
      using marker_then_dot_split by fastforce
    then show ?thesis by (rule has_markerI)
  next
    case 2
    then obtain c post where "s = ''#'' @ ''# '' @ c # post" "c \<noteq> nl"
      using marker_then_dot_split by fastforce
    then show ?thesis by (rule has_markerI)
  next
    case 3
    then obtain c post where "s = ''##'' @ ''# '' @ c # post" "c \<noteq> nl"
      using marker_then_dot_split by fastforce
    then show ?thesis by (rule has_markerI)
  qed
qed

lemma has_marker_Cons: "has_marker s \<Longrightarrow> has_marker (c # s)"
  unfolding has_marker_def by (metis append_Cons)

lemma match_nls_marker: "match_nls s \<Longrightarrow> has_marker s"
proof (induction s)
  case Nil
  then show ?case using heading_group_marker by simp
next
  case (Cons c cs)
  from Cons.prems have "heading_group (c # cs) \<or> match_nls cs" by auto
  then show ?case using heading_group_marker Cons.IH has_marker_Cons by blast
qed

lemma match_dots_marker: "match_dots s \<Longrightarrow> has_marker s"
proof (induction s)
  case Nil
  then show ?case using match_nls_marker[of "[]"] by simp
next
  case (Cons c cs)
  from Cons.prems have "match_nls (c # cs) \<or> match_dots cs" by auto
  then show ?case using match_nls_marker Cons.IH has_marker_Cons by blast
qed

lemma search_from_marker: "search_from bol s \<Longrightarrow> has_marker s"
proof (induction s arbitrary: bol)
  case Nil
  then show ?case using match_dots_marker[of "[]"] by simp
next
  case (Cons c cs)
  from Cons.prems have "match_dots (c # cs) \<or> search_from (c = nl) cs" by auto
  then show ?case using match_dots_marker Cons.IH has_marker_Cons by blast
qed

lemma heading_group_here: "c \<noteq> nl \<Longrightarrow> heading_group (''# '' @ c # post)"
  by (simp add: heading_group_def marker_then_dot_def startswith_def)

lemma match_nls_group: "heading_group s \<Longrightarrow> match_nls s"
  by (cases s) simp_all

lemma match_dots_nls: "match_nls s \<Longrightarrow> match_dots s"
  by (cases s) simp_all

lemma search_from_bol: "match_dots s \<Longrightarrow> search_from True s"
  by (cases s) simp_all

lemma match_dots_here: "c \<noteq> nl \<Longrightarrow> match_dots (''# '' @ c # post)"
  by (intro match_dots_nls match_nls_group heading_group_here)

lemma match_dots_skip: "nl \<notin> set b \<Longrightarrow> match_dots s \<Longrightarrow> match_dots (b @ s)"
  by (induction b) auto

lemma search_from_skip: "search_from True s \<Longrightarrow> search_from bol (a @ nl # s)"
  by (induction a arbitrary: bol) simp_all

lemma marker_search_from:
  assumes "c \<noteq> nl"
  shows "search_from True (pre @ ''# '' @ c # post)"
proof (cases "nl \<in> set pre")
  case False
  then have "match_dots (pre @ ''# '' @ c # post)"
    using match_dots_skip match_dots_here[OF assms] by blast
  then show ?thesis by (rule search_from_bol)
next
  case True
  then obtain a b where pre: "pre = a @ nl # b" and b: "nl \<notin> set b"
    using split_list_last by fastforce
  have "match_dots (b @ ''# '' @ c # post)"
    using match_dots_skip[OF b] match_dots_here[OF assms] by blast
  then have "search_from True (b @ ''# '' @ c # post)"
    by (rule search_from_bol)
  then have "search_from True (a @ nl # (b @ ''# '' @ c # post))"
    by (rule search_from_skip)
  then show ?thesis by (simp add: pre)
qed

lemma heading_search_iff: "heading_search text \<longleftrightarrow> has_marker text"
proof
  assume "heading_search text"
  then show "has_marker text"
    unfolding heading_search_def by (rule search_from_marker)
next
  assume "has_marker text"
  then obtain pre c post where "text = pre @ ''# '' @ c # post" "c \<noteq> nl"
    unfolding has_marker_def by blast
  then show "heading_search text"
    unfolding heading_search_def using marker_search_from by blast
qed

lemma forty_words_count: "length (split_ws forty_words) = 40"
  by code_simp

lemma validate_basico:
  "validate_generated_text text ''basico'' conv =
     (if length (split_ws text) > 500
      then Inr (False, ExceedsLimit ''basico'' 500 (length (split_ws text)))
      else if length (split_ws text) < 50 \<and> \<not> conv then Inr (False, TooShort)
      else Inr (True, ValidContent))"
  by (simp add: validate_generated_text_def max_words_def Let_def)

lemma validate_medio:
  "validate_generated_text text ''medio'' conv =
     (if length (split_ws text) > 1000
      then Inr (False, ExceedsLimit ''medio'' 1000 (length (split_ws text)))
      else if length (split_ws text) < 50 \<and> \<not> conv then Inr (False, TooShort)
      else if \<not> conv \<and> \<not> heading_search text then Inr (False, MissingHeading)
      else Inr (True, ValidContent))"
  by (simp add: validate_generated_text_def max_words_def Let_def)

lemma validate_profesional:
  "validate_generated_text text ''profesional'' conv =
     (if length (split_ws text) > 2000
      then Inr (False, ExceedsLimit ''profesional'' 2000 (length (split_ws text)))
      else if length (split_ws text) < 50 \<and> \<not> conv then Inr (False, TooShort)
      else if \<not> conv \<and> \<not> heading_search text then Inr (False, MissingHeading)
      else Inr (True, ValidContent))"
  by (simp add: validate_generated_text_def max_words_def Let_def)

subsection \<open>Claim C3\<close>

text \<open>
  C3, as the specification states it, fails: it makes a medium-level, non-conversational
  text invalid whenever no line begins with a heading marker. The sample text
  \<open>inline_marker_text\<close> has fifty-two words on a single line that begins with \<^verbatim>\<open>a\<close>,
  so no line of it begins with \<^verbatim>\<open># \<close>, \<^verbatim>\<open>## \<close> or \<^verbatim>\<open>### \<close>; the validator
  nevertheless returns valid, because the pattern lets any characters precede the marker.
\<close>

theorem validate_inline_marker_counterexample:
  "validate_generated_text inline_marker_text ''medio'' False = Inr (True, ValidContent)
   \<and> \<not> spec_line_begins_heading inline_marker_text"
  by code_simp

text \<open>
  C3, amended: for each of the three levels with its ceiling (500, 1000, 2000), the
  validator returns invalid exactly when the word count exceeds the ceiling; or the word
  count is below 50 and the flag is not conversational; or the level is medium or
  professional, the flag is not conversational, and the text nowhere contains \<^verbatim>\<open># \<close>
  followed by a character other than a line feed (anywhere in a line, not only at its
  start). Otherwise it returns valid. In particular every 40-word text at the basic level
  is invalid with the too-short message when not conversational, and valid when
  conversational. The validator is a function of its three arguments alone.
\<close>

theorem validate_generated_text_verdict:
  assumes "(level, limit) \<in> {(''basico'', 500), (''medio'', 1000), (''profesional'', 2000)}"
  shows "(\<exists>msg. validate_generated_text text level conv =
           Inr (\<not> (length (split_ws text) > limit
                   \<or> (length (split_ws text) < 50 \<and> \<not> conv)
                   \<or> (level \<in> {''medio'', ''profesional''} \<and> \<not> conv \<and> \<not> has_marker text)),
                msg))
         \<and> (length (split_ws text) = 40 \<longrightarrow>
               validate_generated_text text ''basico'' False = Inr (False, TooShort) \<and>
               validate_generated_text text ''basico'' True = Inr (True, ValidContent))"
proof (intro conjI impI)
  from assms consider "level = ''basico''" "limit = 500" | "level = ''medio''" "limit = 1000"
    | "level = ''profesional''" "limit = 2000"
    by auto
  then show "\<exists>msg. validate_generated_text text level conv =
           Inr (\<not> (length (split_ws text) > limit
                   \<or> (length (split_ws text) < 50 \<and> \<not> conv)
                   \<or> (level \<in> {''medio'', ''profesional''} \<and> \<not> conv \<and> \<not> has_marker text)),
                msg)"
  proof cases
    case 1
    then show ?thesis by (simp add: validate_basico)
  next
    case 2
    then show ?thesis by (simp add: validate_medio heading_search_iff)
  next
    case 3
    then show ?thesis by (simp add: validate_profesional heading_search_iff)
  qed
next
  assume "length (split_ws text) = 40"
  then show "validate_generated_text text ''basico'' False = Inr (False, TooShort)"
    by (simp add: validate_basico)
next
  assume "length (split_ws text) = 40"
  then show "validate_generated_text text ''basico'' True = Inr (True, ValidContent)"
    by (simp add: validate_basico)
qed

theorem validate_generated_text_verdict_witness:
  "validate_generated_text forty_words ''basico'' False = Inr (False, TooShort) \<and>
   validate_generated_text forty_words ''basico'' True = Inr (True, ValidContent)"
proof -
  have "(''basico'', 500::nat) \<in> {(''basico'', 500), (''medio'', 1000), (''profesional'', 2000)}"
    by simp
  from validate_generated_text_verdict [OF this, of forty_words] forty_words_count
  show ?thesis by blast
qed

section \<open>Properties of the block parsers\<close>

subsection \<open>Trimmed lines\<close>

lemma strip_prefix_of: "\<exists>t. dropWhile is_space s = strip s @ t"
proof -
  have "dropWhile is_space s =
        rev (dropWhile is_space (rev (dropWhile is_space s))) @
        rev (takeWhile is_space (rev (dropWhile is_space s)))"
    by (metis rev_append rev_rev_ident takeWhile_dropWhile_id)
  then show ?thesis unfolding strip_def by blast
qed

lemma strip_head_not_space: "strip s = c # r \<Longrightarrow> \<not> is_space c"
proof -
  assume a: "strip s = c # r"
  obtain t where "dropWhile is_space s = strip s @ t" using strip_prefix_of by blast
  with a have "dropWhile is_space s = c # (r @ t)" by simp
  then show ?thesis by (metis hd_dropWhile list.distinct(1) list.sel(1))
qed

lemma is_space_blank: "is_space (CHR '' '')"
  by (simp add: is_space_def)

lemma strip_not_indented: "\<not> startswith (CHR '' '' # p) (strip s)"
proof
  assume "startswith (CHR '' '' # p) (strip s)"
  then obtain r where "strip s = CHR '' '' # r"
    unfolding startswith_def by (cases "strip s") auto
  then show False using strip_head_not_space is_space_blank by blast
qed

lemma strip_lead_blank: "strip (CHR '' '' # s) = strip s"
  by (simp add: strip_def is_space_blank)

lemma pdf_line_strip_cong:
  "strip r1 = strip r2 \<Longrightarrow> pdf_line accepts i r1 st = pdf_line accepts i r2 st"
  by (simp add: pdf_line_def)

lemma docx_line_strip_cong: "strip r1 = strip r2 \<Longrightarrow> docx_line r1 st = docx_line r2 st"
  by (simp add: docx_line_def)

lemma startswith_iff: "startswith p s \<longleftrightarrow> (\<exists>t. s = p @ t)"
  unfolding startswith_def
  by (metis append_eq_conv_conj append_take_drop_id)

subsection \<open>Single steps of the word-processing backend\<close>

lemma docx_line_h1:
  assumes "startswith ''# '' (strip raw)"
  shows "docx_line raw st =
     Inr (st\<lparr>section_number := section_number st + 1,
             subsection_number := 0,
             doc := doc st @
               [DParagraph (str_of_nat (section_number st + 1) @ ''. '' @ strip (drop 2 (strip raw)))
                  CustomHeading1 None],
             in_list_docx := False\<rparr>)"
proof -
  from assms obtain t where "strip raw = ''# '' @ t" by (auto simp: startswith_iff)
  then show ?thesis by (simp add: docx_line_def startswith_def)
qed

lemma docx_line_h2:
  assumes "startswith ''## '' (strip raw)"
  shows "docx_line raw st =
     Inr (st\<lparr>subsection_number := subsection_number st + 1,
             doc := doc st @
               [DParagraph (str_of_nat (section_number st) @ ''.''
                            @ str_of_nat (subsection_number st + 1) @ '' ''
                            @ strip (drop 3 (strip raw)))
                  CustomHeading2 None],
             in_list_docx := False\<rparr>)"
proof -
  from assms obtain t where "strip raw = ''## '' @ t" by (auto simp: startswith_iff)
  then show ?thesis by (simp add: docx_line_def startswith_def)
qed

lemma docx_flush_counters:
  "docx_flush_table st = Inr st' \<Longrightarrow>
     section_number st' = section_number st \<and> subsection_number st' = subsection_number st"
  by (auto simp: docx_flush_table_def split: if_splits sum.splits)

lemma docx_line_counters:
  assumes "\<not> startswith ''# '' (strip raw)" and "\<not> startswith ''## '' (strip raw)"
    and "docx_line raw st = Inr st'"
  shows "section_number st' = section_number st \<and> subsection_number st' = subsection_number st"
proof (cases "strip raw = []")
  case True
  with assms(3) show ?thesis
    by (auto simp: docx_line_def dest: docx_flush_counters split: if_splits)
next
  case ne: False
  show ?thesis
  proof (cases "startswith ''### '' (strip raw) \<or> startswith ''- '' (strip raw)
      \<or> startswith ''* '' (strip raw) \<or> startswith ''  - '' (strip raw)
      \<or> startswith ''  * '' (strip raw) \<or> startswith ''|'' (strip raw)")
    case True
    with assms ne show ?thesis
      by (auto simp: docx_line_def Let_def split: if_splits)
  next
    case False
    with assms ne obtain st3 where
      f: "(if in_table st then docx_flush_table (st\<lparr>in_list_docx := False, list_level_docx := 0\<rparr>)
           else Inr (st\<lparr>in_list_docx := False, list_level_docx := 0\<rparr>)) = Inr st3"
      and r: "st' = st3\<lparr>doc := doc st3 @ [DParagraph (strip raw) CustomNormal None]\<rparr>"
      by (auto simp: docx_line_def Let_def split: sum.splits)
    from f have "section_number st3 = section_number st \<and> subsection_number st3 = subsection_number st"
      by (auto dest: docx_flush_counters split: if_splits)
    with r show ?thesis by simp
  qed
qed


lemma docx_line_paragraph:
  assumes "is_paragraph_line (strip raw)" and "\<not> in_table st \<or> table_data_docx st = []"
  shows "docx_line raw st =
     Inr (st\<lparr>in_list_docx := False, list_level_docx := 0,
             doc := doc st @ [DParagraph (strip raw) CustomNormal None]\<rparr>)"
  using assms
  by (auto simp add: docx_line_def docx_flush_table_def is_paragraph_line_def Let_def)

subsection \<open>The table routine of the word-processing backend\<close>

lemma add_table_to_docx_raises:
  "list_ex (\<lambda>row. row \<noteq> []) rows \<Longrightarrow> add_table_to_docx d rows = Inl TableError"
  by (auto simp: add_table_to_docx_def)

lemma docx_pending_rows_raise:
  assumes "in_table st" and "list_ex (\<lambda>row. row \<noteq> []) (table_data_docx st)"
    and "strip raw = [] \<or> is_paragraph_line (strip raw)"
  shows "docx_line raw st = Inl TableError"
proof -
  from assms(2) have ne: "table_data_docx st \<noteq> []" by auto
  from assms(3) show ?thesis
  proof
    assume "strip raw = []"
    with assms(1,2) ne show ?thesis
      by (simp add: docx_line_def docx_flush_table_def add_table_to_docx_raises)
  next
    assume "is_paragraph_line (strip raw)"
    with assms(1,2) ne show ?thesis
      by (simp add: docx_line_def docx_flush_table_def add_table_to_docx_raises
          is_paragraph_line_def Let_def)
  qed
qed

lemma docx_single_row_raises:
  "parse_markdown_for_docx False [] ''|a|b|'' = Inl TableError"
  by code_simp

subsection \<open>Single steps of the flow-document backend\<close>

lemma pdf_heading_accepted:
  assumes "accepts (anchor_tag i)" and "accepts title"
  shows "pdf_heading accepts i title sty st =
     Inr (st\<lparr>toc := toc st @ [(title, length (story st), anchor i)],
             story := story st @ [Paragraph (anchor_tag i) BodyText, Paragraph title sty],
             in_list := False\<rparr>)"
  using assms by (simp add: pdf_heading_def new_paragraph_def)

lemma pdf_heading_refused:
  assumes "\<not> accepts (anchor_tag i) \<or> \<not> accepts title"
  shows "pdf_heading accepts i title sty st = Inl ValueError"
  using assms by (auto simp add: pdf_heading_def new_paragraph_def)

lemma pdf_line_h1:
  assumes "startswith ''# '' (strip raw)"
  shows "pdf_line accepts i raw st = pdf_heading accepts i (drop 2 (strip raw)) Heading1 st"
proof -
  from assms obtain t where "strip raw = ''# '' @ t" by (auto simp: startswith_iff)
  then show ?thesis by (simp add: pdf_line_def startswith_def)
qed

lemma pdf_line_h2:
  assumes "startswith ''## '' (strip raw)"
  shows "pdf_line accepts i raw st = pdf_heading accepts i (drop 3 (strip raw)) Heading2 st"
proof -
  from assms obtain t where "strip raw = ''## '' @ t" by (auto simp: startswith_iff)
  then show ?thesis by (simp add: pdf_line_def startswith_def)
qed


lemma pdf_flush_story:
  "story (pdf_flush_table st) =
     story st @ (case table_data st of [] \<Rightarrow> [] | r # rs \<Rightarrow> [Table (r # rs) (replicate (length r) 100)])"
  "in_list (pdf_flush_table st) = in_list st"
  "list_level (pdf_flush_table st) = list_level st"
  "toc (pdf_flush_table st) = toc st"
  "table_data (pdf_flush_table st) = []"
  by (auto simp: pdf_flush_table_def split: list.splits)

lemma pdf_line_paragraph_refused:
  assumes "is_paragraph_line (strip raw)" and "\<not> accepts (strip raw)"
  shows "pdf_line accepts i raw st = Inl ValueError"
  using assms by (simp add: pdf_line_def is_paragraph_line_def new_paragraph_def Let_def)

lemma pdf_line_paragraph:
  assumes "is_paragraph_line (strip raw)" and "accepts (strip raw)"
  shows "\<exists>st'. pdf_line accepts i raw st = Inr st'
     \<and> story st' =
         story st
         @ (case table_data st of [] \<Rightarrow> [] | r # rs \<Rightarrow> [Table (r # rs) (replicate (length r) 100)])
         @ (if in_list st then [Spacer 1 12] else [])
         @ [Paragraph (strip raw) BodyText]
     \<and> table_data st' = [] \<and> in_list st' = False \<and> toc st' = toc st"
  using assms
  by (simp add: pdf_line_def is_paragraph_line_def new_paragraph_def Let_def pdf_flush_story)


subsection \<open>Claim C1\<close>

text \<open>
  C1, as the specification states it, fails for the flow-document (PDF) backend: that
  backend keeps no section counters and passes a heading's text to the paragraph without
  any prefix. On the five lines \<^verbatim>\<open># A\<close>, \<^verbatim>\<open>## B\<close>, \<^verbatim>\<open>## C\<close>, \<^verbatim>\<open># D\<close>, \<^verbatim>\<open>## E\<close> its
  heading paragraphs read \<^verbatim>\<open>A\<close>, \<^verbatim>\<open>B\<close>, \<^verbatim>\<open>C\<close>, \<^verbatim>\<open>D\<close>, \<^verbatim>\<open>E\<close>, not \<^verbatim>\<open>1. A\<close>,
  \<^verbatim>\<open>1.1 B\<close> and so on.
\<close>

theorem pdf_headings_unnumbered_counterexample:
  "map_sum id story_headings (pdf_blocks plain_markup sample_headings)
     = Inr [''A'', ''B'', ''C'', ''D'', ''E'']"
  by code_simp

text \<open>
  C1, amended: in the word-processing (DOCX) backend each top-level heading line
  increments the section counter, resets the subsection counter to 0 and emits the
  heading text with the prefix \<^verbatim>\<open>{section}. \<close>; each second-level heading increments
  the subsection counter and emits the prefix \<^verbatim>\<open>{section}.{subsection} \<close>; every other
  line leaves both counters as they are. The five example lines yield \<^verbatim>\<open>1. A\<close>,
  \<^verbatim>\<open>1.1 B\<close>, \<^verbatim>\<open>1.2 C\<close>, \<^verbatim>\<open>2. D\<close>, \<^verbatim>\<open>2.1 E\<close>, also with other lines between them.
  The flow-document (PDF) backend keeps no counters: it builds an anchor paragraph and a
  heading paragraph from the heading's text as written, unescaped and with no numbering
  prefix, and raises \<^verbatim>\<open>ValueError\<close> when the markup parser of the document library
  refuses one of the two texts.
\<close>

theorem heading_numbering:
  "(startswith ''# '' (strip raw) \<longrightarrow>
      docx_line raw st =
        Inr (st\<lparr>section_number := section_number st + 1,
                subsection_number := 0,
                doc := doc st @
                  [DParagraph (str_of_nat (section_number st + 1) @ ''. ''
                               @ strip (drop 2 (strip raw))) CustomHeading1 None],
                in_list_docx := False\<rparr>))
   \<and> (startswith ''## '' (strip raw) \<longrightarrow>
      docx_line raw st =
        Inr (st\<lparr>subsection_number := subsection_number st + 1,
                doc := doc st @
                  [DParagraph (str_of_nat (section_number st) @ ''.''
                               @ str_of_nat (subsection_number st + 1) @ '' ''
                               @ strip (drop 3 (strip raw))) CustomHeading2 None],
                in_list_docx := False\<rparr>))
   \<and> (\<not> startswith ''# '' (strip raw) \<and> \<not> startswith ''## '' (strip raw)
        \<and> docx_line raw st = Inr st' \<longrightarrow>
      section_number st' = section_number st \<and> subsection_number st' = subsection_number st)
   \<and> parse_markdown_for_docx False [] sample_headings =
        Inr [DParagraph ''1. A'' CustomHeading1 None, DParagraph ''1.1 B'' CustomHeading2 None,
             DParagraph ''1.2 C'' CustomHeading2 None, DParagraph ''2. D'' CustomHeading1 None,
             DParagraph ''2.1 E'' CustomHeading2 None]
   \<and> map_sum id docx_heading_texts (parse_markdown_for_docx False [] sample_interleaved) =
        Inr [''1. A'', ''1.1 B'', ''1.2 C'', ''2. D'', ''2.1 E'']
   \<and> (startswith ''# '' (strip raw) \<and> accepts (anchor_tag i) \<and> accepts (drop 2 (strip raw)) \<longrightarrow>
      pdf_line accepts i raw pst =
        Inr (pst\<lparr>toc := toc pst @ [(drop 2 (strip raw), length (story pst), anchor i)],
                 story := story pst @ [Paragraph (anchor_tag i) BodyText,
                                       Paragraph (drop 2 (strip raw)) Heading1],
                 in_list := False\<rparr>))
   \<and> (startswith ''## '' (strip raw) \<and> accepts (anchor_tag i) \<and> accepts (drop 3 (strip raw)) \<longrightarrow>
      pdf_line accepts i raw pst =
        Inr (pst\<lparr>toc := toc pst @ [(drop 3 (strip raw), length (story pst), anchor i)],
                 story := story pst @ [Paragraph (anchor_tag i) BodyText,
                                       Paragraph (drop 3 (strip raw)) Heading2],
                 in_list := False\<rparr>))
   \<and> (startswith ''# '' (strip raw)
        \<and> (\<not> accepts (anchor_tag i) \<or> \<not> accepts (drop 2 (strip raw))) \<longrightarrow>
      pdf_line accepts i raw pst = Inl ValueError)
   \<and> (startswith ''## '' (strip raw)
        \<and> (\<not> accepts (anchor_tag i) \<or> \<not> accepts (drop 3 (strip raw))) \<longrightarrow>
      pdf_line accepts i raw pst = Inl ValueError)
   \<and> map_sum id story_headings (pdf_blocks plain_markup sample_interleaved)
        = Inr [''A'', ''B'', ''C'', ''D'', ''E'']"
proof (intro conjI impI)
  show "parse_markdown_for_docx False [] sample_headings =
        Inr [DParagraph ''1. A'' CustomHeading1 None, DParagraph ''1.1 B'' CustomHeading2 None,
             DParagraph ''1.2 C'' CustomHeading2 None, DParagraph ''2. D'' CustomHeading1 None,
             DParagraph ''2.1 E'' CustomHeading2 None]"
    by code_simp
  show "map_sum id docx_heading_texts (parse_markdown_for_docx False [] sample_interleaved) =
        Inr [''1. A'', ''1.1 B'', ''1.2 C'', ''2. D'', ''2.1 E'']"
    by code_simp
  show "map_sum id story_headings (pdf_blocks plain_markup sample_interleaved)
        = Inr [''A'', ''B'', ''C'', ''D'', ''E'']"
    by code_simp
qed (use docx_line_counters in
      \<open>auto simp: docx_line_h1 docx_line_h2 pdf_line_h1 pdf_line_h2 pdf_heading_accepted
         pdf_heading_refused\<close>)

theorem heading_numbering_witness:
  "docx_line ''# A'' (docx_init []) =
     Inr ((docx_init [])\<lparr>section_number := 1, subsection_number := 0,
            doc := [DParagraph ''1. A'' CustomHeading1 None], in_list_docx := False\<rparr>)
   \<and> docx_line ''## B'' ((docx_init [])\<lparr>section_number := 1\<rparr>) =
     Inr ((docx_init [])\<lparr>section_number := 1, subsection_number := 1,
            doc := [DParagraph ''1.1 B'' CustomHeading2 None], in_list_docx := False\<rparr>)
   \<and> pdf_line plain_markup 0 ''# A'' (pdf_init []) =
       Inr ((pdf_init [])\<lparr>toc := [(''A'', 0, anchor 0)],
              story := [Paragraph (anchor_tag 0) BodyText, Paragraph ''A'' Heading1],
              in_list := False\<rparr>)
   \<and> pdf_line plain_markup 0 ''# A & <b>B'' (pdf_init []) = Inl ValueError"
proof -
  have h1: "startswith ''# '' (strip ''# A'')" by code_simp
  have h2: "startswith ''## '' (strip ''## B'')" by code_simp
  have h3: "startswith ''# '' (strip ''# A & <b>B'')" by code_simp
  have e1: "str_of_nat (0 + 1) @ ''. '' @ strip (drop 2 (strip ''# A'')) = ''1. A''"
    by code_simp
  have e2: "str_of_nat 1 @ ''.'' @ str_of_nat (0 + 1) @ '' '' @ strip (drop 3 (strip ''## B'')) = ''1.1 B''"
    by code_simp
  have e3: "drop 2 (strip ''# A'') = ''A''" by code_simp
  have k1: "plain_markup (anchor_tag 0) \<and> plain_markup (drop 2 (strip ''# A''))" by code_simp
  have k2: "\<not> plain_markup (drop 2 (strip ''# A & <b>B''))" by code_simp
  from heading_numbering [of "''# A''" "docx_init []"] h1
  have a: "docx_line ''# A'' (docx_init []) =
        Inr ((docx_init [])\<lparr>section_number := section_number (docx_init []) + 1,
                subsection_number := 0,
                doc := doc (docx_init []) @
                  [DParagraph (str_of_nat (section_number (docx_init []) + 1) @ ''. ''
                               @ strip (drop 2 (strip ''# A''))) CustomHeading1 None],
                in_list_docx := False\<rparr>)"
    by blast
  from heading_numbering [of "''## B''" "(docx_init [])\<lparr>section_number := 1\<rparr>"] h2
  have b: "docx_line ''## B'' ((docx_init [])\<lparr>section_number := 1\<rparr>) =
        Inr ((docx_init [])\<lparr>section_number := 1\<rparr>
               \<lparr>subsection_number := subsection_number ((docx_init [])\<lparr>section_number := 1\<rparr>) + 1,
                doc := doc ((docx_init [])\<lparr>section_number := 1\<rparr>) @
                  [DParagraph (str_of_nat (section_number ((docx_init [])\<lparr>section_number := 1\<rparr>)) @ ''.''
                               @ str_of_nat (subsection_number ((docx_init [])\<lparr>section_number := 1\<rparr>) + 1) @ '' ''
                               @ strip (drop 3 (strip ''## B''))) CustomHeading2 None],
                in_list_docx := False\<rparr>)"
    by blast
  from heading_numbering [of "''# A''" _ _ plain_markup 0 "pdf_init []"] h1 k1
  have c: "pdf_line plain_markup 0 ''# A'' (pdf_init []) =
        Inr ((pdf_init [])\<lparr>toc := toc (pdf_init []) @ [(drop 2 (strip ''# A''), length (story (pdf_init [])), anchor 0)],
                 story := story (pdf_init []) @ [Paragraph (anchor_tag 0) BodyText,
                                       Paragraph (drop 2 (strip ''# A'')) Heading1],
                 in_list := False\<rparr>)"
    by blast
  from heading_numbering [of "''# A & <b>B''" _ _ plain_markup 0 "pdf_init []"] h3 k2
  have d: "pdf_line plain_markup 0 ''# A & <b>B'' (pdf_init []) = Inl ValueError"
    by blast
  show ?thesis
    using a b c d e1 e2 e3 by (simp add: docx_init_def pdf_init_def)
qed


subsection \<open>Claim C5\<close>




subsection \<open>Claim C6\<close>

text \<open>
  C6 describes what the two bullet branches of the parsers are written for, but the code
  misses it: each loop trims the line before it classifies it, so a line of two spaces
  followed by \<^verbatim>\<open>- \<close> or \<^verbatim>\<open>* \<close> reaches the classification without its indent. Such a
  line is processed exactly as the unindented one, in both backends, and no trimmed line
  ever satisfies the test of the second-level branch.
\<close>

theorem indented_bullet_not_distinguished:
  "pdf_line accepts i (''  - '' @ item) st = pdf_line accepts i (''- '' @ item) st
   \<and> pdf_line accepts i (''  * '' @ item) st = pdf_line accepts i (''* '' @ item) st
   \<and> docx_line (''  - '' @ item) st' = docx_line (''- '' @ item) st'
   \<and> docx_line (''  * '' @ item) st' = docx_line (''* '' @ item) st'
   \<and> \<not> startswith ''  - '' (strip raw) \<and> \<not> startswith ''  * '' (strip raw)"
proof -
  have a: "strip (''  - '' @ item) = strip (''- '' @ item)"
    by (simp add: strip_lead_blank)
  have b: "strip (''  * '' @ item) = strip (''* '' @ item)"
    by (simp add: strip_lead_blank)
  show ?thesis
    using pdf_line_strip_cong[OF a] pdf_line_strip_cong[OF b]
      docx_line_strip_cong[OF a] docx_line_strip_cong[OF b]
      strip_not_indented[of "'' - ''" raw] strip_not_indented[of "'' * ''" raw]
    by simp
qed

subsection \<open>Claim C7\<close>

text \<open>
  C7, as the specification states it, fails for the word-processing backend that
  \<^verbatim>\<open>render\<close> calls (the method \<^verbatim>\<open>DocumentGenerator.parse_markdown_for_docx\<close>): the
  line \<^verbatim>\<open>a **b** c\<close> becomes one paragraph whose text still carries the asterisks.
\<close>

theorem docx_paragraph_keeps_markers_counterexample:
  "parse_markdown_for_docx False [] ''a **b** c''
    = Inr [DParagraph ''a **b** c'' CustomNormal None]"
  by code_simp

text \<open>
  C7, amended: for every paragraph line with no table rows pending, the word-processing
  backend used by \<^verbatim>\<open>render\<close> emits the trimmed line, as written and with its emphasis
  markers, as the text of a single CustomNormal paragraph; it does not split the line
  into bold or italic spans. The flow-document backend passes the trimmed line,
  unescaped, to the library as the markup text of a single BodyText paragraph, placed
  after the pending table, if any, and after the spacer that closes a list; it raises
  \<^verbatim>\<open>ValueError\<close> when the markup parser refuses the line.
\<close>

theorem paragraph_line_single_block:
  "(is_paragraph_line (strip raw) \<and> (\<not> in_table st \<or> table_data_docx st = []) \<longrightarrow>
      docx_line raw st =
        Inr (st\<lparr>in_list_docx := False, list_level_docx := 0,
                doc := doc st @ [DParagraph (strip raw) CustomNormal None]\<rparr>))
   \<and> (is_paragraph_line (strip raw) \<and> accepts (strip raw) \<longrightarrow>
        (\<exists>pst'. pdf_line accepts i raw pst = Inr pst'
           \<and> story pst' =
               story pst
               @ (case table_data pst of [] \<Rightarrow> []
                  | r # rs \<Rightarrow> [Table (r # rs) (replicate (length r) 100)])
               @ (if in_list pst then [Spacer 1 12] else [])
               @ [Paragraph (strip raw) BodyText]))
   \<and> (is_paragraph_line (strip raw) \<and> \<not> accepts (strip raw) \<longrightarrow>
        pdf_line accepts i raw pst = Inl ValueError)"
proof (intro conjI impI)
  assume "is_paragraph_line (strip raw) \<and> (\<not> in_table st \<or> table_data_docx st = [])"
  then show "docx_line raw st =
        Inr (st\<lparr>in_list_docx := False, list_level_docx := 0,
                doc := doc st @ [DParagraph (strip raw) CustomNormal None]\<rparr>)"
    using docx_line_paragraph by blast
next
  assume "is_paragraph_line (strip raw) \<and> accepts (strip raw)"
  then show "\<exists>pst'. pdf_line accepts i raw pst = Inr pst'
           \<and> story pst' =
               story pst
               @ (case table_data pst of [] \<Rightarrow> []
                  | r # rs \<Rightarrow> [Table (r # rs) (replicate (length r) 100)])
               @ (if in_list pst then [Spacer 1 12] else [])
               @ [Paragraph (strip raw) BodyText]"
    using pdf_line_paragraph [of raw accepts i pst] by blast
next
  assume "is_paragraph_line (strip raw) \<and> \<not> accepts (strip raw)"
  then show "pdf_line accepts i raw pst = Inl ValueError"
    using pdf_line_paragraph_refused by blast
qed

theorem paragraph_line_single_block_witness:
  "docx_line ''a **b** c'' (docx_init []) =
     Inr ((docx_init [])\<lparr>in_list_docx := False, list_level_docx := 0,
            doc := [DParagraph ''a **b** c'' CustomNormal None]\<rparr>)
   \<and> map_sum id story (pdf_line plain_markup 0 ''a **b** c'' (pdf_init []))
       = Inr [Paragraph ''a **b** c'' BodyText]
   \<and> pdf_line plain_markup 0 ''a <b> c'' (pdf_init []) = Inl ValueError"
proof -
  have h: "is_paragraph_line (strip ''a **b** c'') \<and> plain_markup (strip ''a **b** c'')"
    by code_simp
  have h': "is_paragraph_line (strip ''a **b** c'')" using h by simp
  have r: "is_paragraph_line (strip ''a <b> c'') \<and> \<not> plain_markup (strip ''a <b> c'')"
    by code_simp
  have s: "strip ''a **b** c'' = ''a **b** c''" by code_simp
  have n: "\<not> in_table (docx_init []) \<or> table_data_docx (docx_init []) = []"
    by (simp add: docx_init_def)
  from paragraph_line_single_block [of "''a **b** c''" "docx_init []"] h' n
  have a: "docx_line ''a **b** c'' (docx_init []) =
        Inr ((docx_init [])\<lparr>in_list_docx := False, list_level_docx := 0,
                doc := doc (docx_init []) @ [DParagraph (strip ''a **b** c'') CustomNormal None]\<rparr>)"
    by blast
  from paragraph_line_single_block [of "''a **b** c''" _ plain_markup 0 "pdf_init []"] h
  obtain pst' where b: "pdf_line plain_markup 0 ''a **b** c'' (pdf_init []) = Inr pst'"
    and b': "story pst' =
          story (pdf_init [])
          @ (case table_data (pdf_init []) of [] \<Rightarrow> []
             | r # rs \<Rightarrow> [Table (r # rs) (replicate (length r) 100)])
          @ (if in_list (pdf_init []) then [Spacer 1 12] else [])
          @ [Paragraph (strip ''a **b** c'') BodyText]"
    by blast
  from paragraph_line_single_block [of "''a <b> c''" _ plain_markup 0 "pdf_init []"] r
  have c: "pdf_line plain_markup 0 ''a <b> c'' (pdf_init []) = Inl ValueError"
    by blast
  show ?thesis
    using a b b' c by (simp add: s docx_init_def pdf_init_def)
qed

subsection \<open>Claim C8\<close>

text \<open>The example directive of the specification gives one bar-chart mapping with the two
  values.\<close>

lemma sample_directive_detected:
  "detect_chart decimal_float sample_directive = Inr (Some Bar, Some [(''Enero'', 10), (''Febrero'', 20)])"
  by code_simp

lemma chart_lines_capitalised:
  "chart_lines tf (split_on nl capitalised_directive) (None, None) = Inl IndexError"
proof -
  have l: "split_on nl capitalised_directive = [capitalised_directive]" by code_simp
  have c: "contains bar_phrase (lower (strip capitalised_directive))" by code_simp
  have d: "chart_data_str (strip capitalised_directive) = Inl IndexError" by code_simp
  show ?thesis by (simp add: l chart_line_def c d)
qed

text \<open>
  C8 states what the pre-pass is written for, but the code misses it on a directive that
  is not in lower case: the detection compares the lower-cased line, the extraction
  splits the line as written on the lower-case \<^verbatim>\<open>con datos:\<close>. On the line
  \<^verbatim>\<open>Gr\<aacute>fico de barras Con Datos: Enero:10, Febrero:20\<close> the directive is detected, the
  split has a single element, and taking element 1 raises \<^verbatim>\<open>IndexError\<close> outside the
  \<^verbatim>\<open>try\<close>: the pre-pass and with it the whole parser raise, for every reading of the
  numbers and every environment.
\<close>

theorem capitalised_directive_raises:
  "contains bar_phrase (lower capitalised_directive)
   \<and> split_str ''con datos:'' (strip capitalised_directive) = [strip capitalised_directive]
   \<and> detect_chart tf capitalised_directive = Inl IndexError
   \<and> parse_markdown_for_pdf env capitalised_directive language = Inl IndexError"
proof (intro conjI)
  show "contains bar_phrase (lower capitalised_directive)" by code_simp
  show "split_str ''con datos:'' (strip capitalised_directive) = [strip capitalised_directive]"
    by code_simp
  show "detect_chart tf capitalised_directive = Inl IndexError"
    by (simp add: detect_chart_def chart_lines_capitalised)
  show "parse_markdown_for_pdf env capitalised_directive language = Inl IndexError"
    by (simp add: parse_markdown_for_pdf_def chart_lines_capitalised)
qed

section \<open>Properties of the translation helper\<close>

subsection \<open>Claim C9\<close>

text \<open>
  C9: for every input string, target language and behaviour of the translation service,
  \<^verbatim>\<open>translate_text\<close> returns a string and never raises; when the target language is
  \<^verbatim>\<open>es\<close> the result is the input; when the service raises, returns \<^verbatim>\<open>None\<close> or returns
  the empty string the result is the input; and for a non-empty input the result is
  never empty.
\<close>

theorem translate_text_total:
  "\<exists>r. translate_text tr text target_lang = Inr r
       \<and> (target_lang = ''es'' \<longrightarrow> r = text)
       \<and> ((\<exists>e. tr target_lang text = Inl e) \<or> tr target_lang text = Inr None
            \<or> tr target_lang text = Inr (Some []) \<longrightarrow> r = text)
       \<and> (text \<noteq> [] \<longrightarrow> r \<noteq> [])"
proof (cases "target_lang = ''es''")
  case True
  then have "translate_text tr text target_lang = Inr text"
    by (simp add: translate_text_def)
  then show ?thesis by simp
next
  case other: False
  show ?thesis
  proof (cases "tr target_lang text")
    case (Inl e)
    with other have "translate_text tr text target_lang = Inr text"
      by (simp add: translate_text_def)
    then show ?thesis by simp
  next
    case (Inr translated)
    show ?thesis
    proof (cases "translated = None \<or> translated = Some []")
      case True
      with other Inr have "translate_text tr text target_lang = Inr text"
        by (auto simp: translate_text_def)
      then show ?thesis by simp
    next
      case False
      then obtain t where t: "translated = Some t" "t \<noteq> []" by auto
      with other Inr have "translate_text tr text target_lang = Inr t"
        by (simp add: translate_text_def)
      with other Inr t show ?thesis by simp
    qed
  qed
qed

theorem translate_text_total_witness:
  "translate_text unreachable_translator ''Documento'' ''en'' = Inr ''Documento''
   \<and> translate_text unreachable_translator ''Documento'' ''es'' = Inr ''Documento''"
proof -
  have f: "unreachable_translator ''en'' ''Documento'' = Inl ValueError"
    by (simp add: unreachable_translator_def)
  from translate_text_total [of unreachable_translator "''Documento''" "''en''"] f
  have a: "translate_text unreachable_translator ''Documento'' ''en'' = Inr ''Documento''"
    by auto
  from translate_text_total [of unreachable_translator "''Documento''" "''es''"]
  have b: "translate_text unreachable_translator ''Documento'' ''es'' = Inr ''Documento''"
    by auto
  from a b show ?thesis by simp
qed

section \<open>Properties of the generation orchestrator\<close>

subsection \<open>Context, cache and request\<close>

lemma context_of_ensure:
  "context_of (ensure_context ctx sid) sid' = context_of ctx sid'"
  by (auto simp: context_of_def ensure_context_def split: option.splits)

lemma cache_set_lookup: "map_of (cache_set k v c) k = Some v"
proof -
  let ?kept = "filter (\<lambda>(k', v'). k' \<noteq> k) c"
  have a: "map_of ?kept k = None"
    by (auto simp: map_of_eq_None_iff)
  have "set (tl ?kept) \<subseteq> set ?kept"
    by (cases ?kept) auto
  then have b: "map_of (tl ?kept) k = None"
    by (auto simp: map_of_eq_None_iff)
  show ?thesis
    using a b by (simp add: cache_set_def Let_def map_add_def)
qed

lemma map_of_filter_other:
  "k' \<noteq> k \<Longrightarrow> map_of (filter (\<lambda>(a, b). a \<noteq> k) c) k' = map_of c k'"
  by (induction c) auto

lemma map_of_filter_same: "map_of (filter (\<lambda>(a, b). a \<noteq> k) c) k = None"
  by (auto simp: map_of_eq_None_iff)

lemma cache_touch_lookup: "map_of (cache_touch k c) = map_of c"
proof (cases "map_of c k")
  case None
  then show ?thesis by (simp add: cache_touch_def)
next
  case (Some v)
  have "map_of (filter (\<lambda>(a, b). a \<noteq> k) c @ [(k, v)]) k' = map_of c k'" for k'
  proof (cases "k' = k")
    case True
    then show ?thesis using Some by (simp add: map_add_def map_of_filter_same)
  next
    case False
    then show ?thesis
      by (simp add: map_add_def map_of_filter_other split: option.splits)
  qed
  then show ?thesis using Some by (auto simp: cache_touch_def)
qed

lemma cache_touch_entries: "set (cache_touch k c) \<subseteq> set c"
  by (auto simp: cache_touch_def dest: map_of_SomeD split: option.splits)

lemma cache_touch_others:
  "filter (\<lambda>(a, b). a \<noteq> k) (cache_touch k c) = filter (\<lambda>(a, b). a \<noteq> k) c"
  by (auto simp: cache_touch_def split: option.splits)

lemma build_request_conversational:
  assumes "is_conversational_prompt prompt"
  shows "build_request e prompt template level language history c =
     Inr \<lparr>messages = (''system'', chat_persona_intro (texts e) @ language @ chat_persona_rest (texts e))
                       # history @ [(''user'', prompt)],
          max_tokens = 200\<rparr>"
  using assms by (simp add: build_request_def system_message_def)

lemma build_request_document:
  assumes "\<not> is_conversational_prompt prompt"
  shows "(\<exists>r. build_request e prompt template level language history c = Inr r)
         \<longleftrightarrow> level \<in> set [''basico'', ''medio'', ''profesional'']"
proof (cases "level \<in> set [''basico'', ''medio'', ''profesional'']")
  case True
  then consider "level = ''basico''" | "level = ''medio''" | "level = ''profesional''" by auto
  then have "\<exists>r. build_request e prompt template level language history c = Inr r"
  proof cases
    case 1
    then show ?thesis using assms
      by (simp add: build_request_def system_message_def LEVEL_INSTRUCTIONS_def token_budget_def)
  next
    case 2
    then show ?thesis using assms
      by (simp add: build_request_def system_message_def LEVEL_INSTRUCTIONS_def token_budget_def)
  next
    case 3
    then show ?thesis using assms
      by (simp add: build_request_def system_message_def LEVEL_INSTRUCTIONS_def token_budget_def)
  qed
  with True show ?thesis by blast
next
  case False
  then have "map_of (LEVEL_INSTRUCTIONS (texts e)) level = None"
    by (simp add: LEVEL_INSTRUCTIONS_def)
  then have "build_request e prompt template level language history c = Inl KeyError"
    using assms by (simp add: build_request_def system_message_def)
  with False show ?thesis by simp
qed

lemma build_request_level_free:
  assumes "build_request e prompt template level language history c = Inr r"
  shows "\<exists>r'. build_request e prompt template level language' history c' = Inr r'"
proof (cases "is_conversational_prompt prompt")
  case True
  then show ?thesis by (simp add: build_request_conversational)
next
  case False
  with assms have "level \<in> set [''basico'', ''medio'', ''profesional'']"
    using build_request_document by blast
  with False show ?thesis using build_request_document by blast
qed

lemma build_request_shape:
  assumes "build_request e prompt template level language history c = Inr r"
  shows "\<exists>sm. messages r = (''system'', sm) # history @ [(''user'', prompt)]"
proof -
  from assms obtain sm budget where
    "r = \<lparr>messages = (''system'', sm) # history @ [(''user'', prompt)], max_tokens = budget\<rparr>"
    unfolding build_request_def Let_def
    by (cases "system_message (texts e) (is_conversational_prompt prompt) level language template
           (if is_conversational_prompt prompt then [] else summarize_history history)
           (context_summary (texts e) c (is_conversational_prompt prompt))";
        cases "if is_conversational_prompt prompt then Some 200 else map_of token_budget level")
       auto
  then show ?thesis by simp
qed

lemma retry_request_shape:
  assumes "messages r = (''system'', sm) # history @ [(''user'', prompt)]"
  shows "messages (retry_request w r) =
           butlast (messages r) @ [(''user'', prompt @ corrective_clause w)]
         \<and> max_tokens (retry_request w r) = max_tokens r"
  using assms by (simp add: retry_request_def butlast_append)

subsection \<open>Completion and attempts\<close>

lemma complete_reply:
  "client e (requests s) r = Completion t \<Longrightarrow>
     complete e r s = (Inr (strip t), s\<lparr>requests := requests s @ [r]\<rparr>)"
  by (simp add: complete_def)

lemma complete_state: "snd (complete e r s) = s\<lparr>requests := requests s @ [r]\<rparr>"
  by (cases "client e (requests s) r") (simp_all add: complete_def)

lemma complete_not_invalid: "fst (complete e r s) \<noteq> Inl (GenerationFailed (InvalidAfterRetry m))"
  by (cases "client e (requests s) r") (simp_all add: complete_def)

lemma first_attempt_conversational:
  "first_attempt e r level True s =
     (case complete e r s of
        (Inl err, s1) \<Rightarrow> (Inl err, s1)
      | (Inr text1, s1) \<Rightarrow>
          (case validate_generated_text text1 level True of
             Inl x \<Rightarrow> (Inl (GenerationFailed ValidatorKeyError), s1)
           | Inr v \<Rightarrow> (Inr text1, s1)))"
  by (auto simp: first_attempt_def split: prod.splits sum.splits)

lemma first_attempt_conversational_state:
  "snd (first_attempt e r level True s) = s\<lparr>requests := requests s @ [r]\<rparr>"
  using complete_state [of e r s]
  by (auto simp: first_attempt_conversational split: prod.splits sum.splits)

lemma first_attempt_conversational_not_invalid:
  "fst (first_attempt e r level True s) \<noteq> Inl (GenerationFailed (InvalidAfterRetry m))"
  using complete_not_invalid [of e r s m]
  by (auto simp: first_attempt_conversational split: prod.splits sum.splits)

lemma store_result_conversational:
  "store_result k t True prompt doc_type template level language sid s =
     (Inr (t, True), s\<lparr>cache := cache_set k t (cache s)\<rparr>)"
  by (simp add: store_result_def)

lemma store_result_cached:
  "store_result k t conv prompt doc_type template level language sid s = (res, s') \<Longrightarrow>
     res = Inr (t, conv) \<and> map_of (cache s') k = Some t"
  by (auto simp: store_result_def Let_def cache_set_lookup)

subsection \<open>The three ways through generate\<close>

lemma generate_level_error:
  assumes "build_request e prompt template level language history
             (context_of (conversation_context s) session_id) = Inl x"
  shows "generate e prompt doc_type template field_map level language history session_id s =
     (Inl LevelKeyError,
      s\<lparr>conversation_context := ensure_context (conversation_context s) session_id\<rparr>)"
  using assms by (simp add: generate_def Let_def context_of_ensure)

lemma generate_hit:
  assumes "build_request e prompt template level language history
             (context_of (conversation_context s) session_id) = Inr r"
      and "map_of (cache s) (generate_cache_key e prompt doc_type template field_map level history)
           = Some cached"
  shows "generate e prompt doc_type template field_map level language history session_id s =
     (Inr (cached, is_conversational_prompt prompt),
      s\<lparr>conversation_context := ensure_context (conversation_context s) session_id,
        cache := cache_touch
                   (generate_cache_key e prompt doc_type template field_map level history)
                   (cache s)\<rparr>)"
  using assms by (simp add: generate_def Let_def context_of_ensure)

lemma generate_miss:
  assumes "build_request e prompt template level language history
             (context_of (conversation_context s) session_id) = Inr r1"
      and "map_of (cache s) (generate_cache_key e prompt doc_type template field_map level history)
           = None"
  shows "generate e prompt doc_type template field_map level language history session_id s =
     (case first_attempt e r1 level (is_conversational_prompt prompt)
             (s\<lparr>conversation_context := ensure_context (conversation_context s) session_id\<rparr>) of
        (Inl err, s1) \<Rightarrow> (Inl err, s1)
      | (Inr generated_text, s1) \<Rightarrow>
          store_result (generate_cache_key e prompt doc_type template field_map level history)
            generated_text (is_conversational_prompt prompt) prompt doc_type
            template level language session_id s1)"
  using assms by (simp add: generate_def Let_def context_of_ensure)

lemma generate_success:
  assumes "generate e prompt doc_type template field_map level language history session_id s
             = (Inr (text, conv), s1)"
  shows "map_of (cache s1) (generate_cache_key e prompt doc_type template field_map level history)
           = Some text
         \<and> conv = is_conversational_prompt prompt
         \<and> (\<exists>r. build_request e prompt template level language history
                    (context_of (conversation_context s) session_id) = Inr r)"
proof (cases "build_request e prompt template level language history
                (context_of (conversation_context s) session_id)")
  case (Inl x)
  from generate_level_error [OF this] assms show ?thesis by simp
next
  case built: (Inr r)
  show ?thesis
  proof (cases "map_of (cache s)
                  (generate_cache_key e prompt doc_type template field_map level history)")
    case (Some cached)
    from generate_hit [OF built Some] assms built Some show ?thesis
      by (auto simp: cache_touch_lookup)
  next
    case None
    obtain res s' where fa: "first_attempt e r level (is_conversational_prompt prompt)
        (s\<lparr>conversation_context := ensure_context (conversation_context s) session_id\<rparr>)
        = (res, s')"
      by (cases "first_attempt e r level (is_conversational_prompt prompt)
        (s\<lparr>conversation_context := ensure_context (conversation_context s) session_id\<rparr>)")
    show ?thesis
    proof (cases res)
      case (Inl err)
      with generate_miss [OF built None] fa assms show ?thesis by simp
    next
      case (Inr t)
      with generate_miss [OF built None] fa assms
      have "store_result (generate_cache_key e prompt doc_type template field_map level history)
              t (is_conversational_prompt prompt) prompt doc_type template level language
              session_id s' = (Inr (text, conv), s1)"
        by simp
      from store_result_cached [OF this] built
      show ?thesis by auto
    qed
  qed
qed

subsection \<open>Sample replies\<close>

lemma split_ws_from_words:
  "split_ws_from [] (concat (replicate n ''a '') @ ''a'') = replicate (Suc n) ''a''"
  by (induction n) (simp_all add: is_space_def)

lemma long_reply_count: "length (split_ws long_reply) = 501"
  by (simp add: long_reply_def split_ws_def split_ws_from_words)

lemma strip_words: "strip (concat (replicate n ''a '') @ ''a'') = concat (replicate n ''a '') @ ''a''"
proof -
  have a: "dropWhile is_space (concat (replicate n ''a '') @ ''a'') = concat (replicate n ''a '') @ ''a''"
    by (cases n) (simp_all add: is_space_def)
  show ?thesis
    by (simp add: strip_def a is_space_def)
qed

subsection \<open>Claim C2\<close>

text \<open>
  C2: when a call to \<^verbatim>\<open>generate\<close> has returned a text, and a second call with the same
  prompt, document type, template, fields, level and history (whatever its language and
  session) finds the entry of that fingerprint as the first call left it, then the second
  call returns the cached text with the same conversational flag; it issues no
  completion request and changes no field of any session context. The state after it is
  the state before it, but for the blank context that every call gives to a session that
  has none, and for the place of the entry in the cache: reading it makes it the most
  recently used one. The cache holds the same keys with the same texts, and the other
  entries keep their order. This holds for every state the second call starts from, so
  also when the session contexts were changed or reset between the two calls; the
  validator plays no part in the result.
\<close>

theorem cache_hit_short_circuit:
  assumes first: "generate e prompt doc_type template field_map level language history
                    session_id s = (Inr (text, conv), s1)"
      and live: "map_of (cache s') (generate_cache_key e prompt doc_type template field_map level history)
                 = map_of (cache s1) (generate_cache_key e prompt doc_type template field_map level history)"
  shows "generate e prompt doc_type template field_map level language' history session_id' s' =
           (Inr (text, conv),
            s'\<lparr>conversation_context := ensure_context (conversation_context s') session_id',
               cache := cache_touch
                          (generate_cache_key e prompt doc_type template field_map level history)
                          (cache s')\<rparr>)
         \<and> requests (snd (generate e prompt doc_type template field_map level language' history
                             session_id' s')) = requests s'
         \<and> map_of (cache (snd (generate e prompt doc_type template field_map level language'
                                  history session_id' s'))) = map_of (cache s')
         \<and> filter (\<lambda>(k, v). k \<noteq> generate_cache_key e prompt doc_type template field_map level
                                   history)
              (cache (snd (generate e prompt doc_type template field_map level language' history
                             session_id' s')))
             = filter (\<lambda>(k, v). k \<noteq> generate_cache_key e prompt doc_type template field_map
                                       level history)
                 (cache s')
         \<and> (\<forall>sid. context_of (conversation_context
                        (snd (generate e prompt doc_type template field_map level language' history
                                session_id' s'))) sid
                    = context_of (conversation_context s') sid)"
proof -
  from generate_success [OF first] obtain r where
    k: "map_of (cache s1) (generate_cache_key e prompt doc_type template field_map level history)
          = Some text"
    and c: "conv = is_conversational_prompt prompt"
    and b: "build_request e prompt template level language history
              (context_of (conversation_context s) session_id) = Inr r"
    by blast
  from build_request_level_free [OF b] obtain r' where
    b': "build_request e prompt template level language' history
           (context_of (conversation_context s') session_id') = Inr r'"
    by blast
  from live k have
    "map_of (cache s') (generate_cache_key e prompt doc_type template field_map level history)
       = Some text"
    by simp
  from generate_hit [OF b' this] c
  have "generate e prompt doc_type template field_map level language' history session_id' s' =
           (Inr (text, conv),
            s'\<lparr>conversation_context := ensure_context (conversation_context s') session_id',
               cache := cache_touch
                          (generate_cache_key e prompt doc_type template field_map level history)
                          (cache s')\<rparr>)"
    by simp
  then show ?thesis
    by (simp add: context_of_ensure cache_touch_lookup cache_touch_others)
qed

theorem cache_hit_short_circuit_witness:
  "fst (generate (example_env fifty_words) ''Redacta un informe'' ''pdf'' [] [] ''basico''
          ''en'' [] ''s2'' (after_first_call\<lparr>conversation_context := Map.empty\<rparr>))
     = Inr (fifty_words, False)
   \<and> requests (snd (generate (example_env fifty_words) ''Redacta un informe'' ''pdf'' [] []
                       ''basico'' ''en'' [] ''s2''
                       (after_first_call\<lparr>conversation_context := Map.empty\<rparr>)))
     = requests after_first_call
   \<and> map_of (cache (snd (generate (example_env fifty_words) ''Redacta un informe'' ''pdf'' []
                            [] ''basico'' ''en'' [] ''s2''
                            (after_first_call\<lparr>conversation_context := Map.empty\<rparr>))))
     = map_of (cache after_first_call)
   \<and> context_of (conversation_context
        (snd (generate (example_env fifty_words) ''Redacta un informe'' ''pdf'' [] []
                ''basico'' ''en'' [] ''s2''
                (after_first_call\<lparr>conversation_context := Map.empty\<rparr>)))) ''s1''
     = blank_context"
proof -
  have "fst (generate (example_env fifty_words) ''Redacta un informe'' ''pdf'' [] [] ''basico''
               ''es'' [] ''s1'' fresh_state) = Inr (fifty_words, False)"
    by code_simp
  then have first: "generate (example_env fifty_words) ''Redacta un informe'' ''pdf'' [] []
      ''basico'' ''es'' [] ''s1'' fresh_state = (Inr (fifty_words, False), after_first_call)"
    by (simp add: after_first_call_def prod_eq_iff)
  have live: "map_of (cache (after_first_call\<lparr>conversation_context := Map.empty\<rparr>))
        (generate_cache_key (example_env fifty_words) ''Redacta un informe'' ''pdf'' [] []
           ''basico'' [])
      = map_of (cache after_first_call)
        (generate_cache_key (example_env fifty_words) ''Redacta un informe'' ''pdf'' [] []
           ''basico'' [])"
    by simp
  have blank: "context_of Map.empty ''s1'' = blank_context"
    by (simp add: context_of_def)
  from cache_hit_short_circuit [OF first live, of "''en''" "''s2''"]
  show ?thesis by (simp add: context_of_ensure blank cache_touch_lookup)
qed

subsection \<open>Claim C4\<close>

text \<open>
  C4: for a non-conversational call that misses the cache, whose first completion
  returns a text that fails validation, exactly one further request is issued, the first
  request with the corrective clause appended to its user message and with the same token
  budget. If the retried text fails validation as well, the call ends in the error that
  carries the validator's message; the cache is as before, and no field of any session
  context has changed (the state differs from the initial one by the blank context of a
  new session and by the two requests in the trace).
\<close>

theorem retry_once_then_hard_error:
  assumes nonconv: "\<not> is_conversational_prompt prompt"
      and miss: "map_of (cache s) (generate_cache_key e prompt doc_type template field_map level history)
                 = None"
      and req: "build_request e prompt template level language history
                  (context_of (conversation_context s) session_id) = Inr r1"
      and reply1: "client e (requests s) r1 = Completion t1"
      and bad1: "validate_generated_text (strip t1) level False = Inr (False, m1)"
  shows "requests (snd (generate e prompt doc_type template field_map level language history
                          session_id s))
           = requests s @ [r1, retry_request (texts e) r1]
         \<and> messages (retry_request (texts e) r1)
             = butlast (messages r1) @ [(''user'', prompt @ corrective_clause (texts e))]
         \<and> max_tokens (retry_request (texts e) r1) = max_tokens r1
         \<and> (client e (requests s @ [r1]) (retry_request (texts e) r1) = Completion t2
              \<and> validate_generated_text (strip t2) level False = Inr (False, m2) \<longrightarrow>
             generate e prompt doc_type template field_map level language history session_id s
               = (Inl (GenerationFailed (InvalidAfterRetry m2)),
                  s\<lparr>conversation_context := ensure_context (conversation_context s) session_id,
                    requests := requests s @ [r1, retry_request (texts e) r1]\<rparr>)
              \<and> cache (snd (generate e prompt doc_type template field_map level language history
                               session_id s)) = cache s
              \<and> (\<forall>sid. context_of (conversation_context
                             (snd (generate e prompt doc_type template field_map level language
                                     history session_id s))) sid
                         = context_of (conversation_context s) sid))"
proof -
  let ?s0 = "s\<lparr>conversation_context := ensure_context (conversation_context s) session_id\<rparr>"
  let ?s1 = "?s0\<lparr>requests := requests s @ [r1]\<rparr>"
  let ?r2 = "retry_request (texts e) r1"
  let ?key = "generate_cache_key e prompt doc_type template field_map level history"
  have c1: "complete e r1 ?s0 = (Inr (strip t1), ?s1)"
    using complete_reply [of e ?s0 r1 t1] reply1 by simp
  have fa: "first_attempt e r1 level False ?s0 = retry_attempt e r1 level False ?s1"
    by (simp add: first_attempt_def c1 bad1)
  have s2: "snd (retry_attempt e r1 level False ?s1) = ?s1\<lparr>requests := requests ?s1 @ [?r2]\<rparr>"
    using complete_state [of e ?r2 ?s1]
    by (auto simp: retry_attempt_def split: prod.splits sum.splits)
  have gen: "generate e prompt doc_type template field_map level language history session_id s =
     (case retry_attempt e r1 level False ?s1 of
        (Inl err, s1) \<Rightarrow> (Inl err, s1)
      | (Inr generated_text, s1) \<Rightarrow>
          store_result ?key generated_text False prompt doc_type template level language
            session_id s1)"
  proof -
    have nc: "is_conversational_prompt prompt = False" using nonconv by simp
    from generate_miss [OF req miss, unfolded nc] fa show ?thesis by simp
  qed
  have log: "requests (snd (generate e prompt doc_type template field_map level language history
                          session_id s)) = requests s @ [r1, ?r2]"
    using s2 unfolding gen
    by (cases "retry_attempt e r1 level False ?s1")
       (auto simp: store_result_def Let_def split: sum.splits)
  from build_request_shape [OF req] obtain sm where
    "messages r1 = (''system'', sm) # history @ [(''user'', prompt)]" by blast
  from retry_request_shape [OF this]
  have shape: "messages ?r2 = butlast (messages r1) @ [(''user'', prompt @ corrective_clause (texts e))]
               \<and> max_tokens ?r2 = max_tokens r1" .
  have fail: "generate e prompt doc_type template field_map level language history session_id s
               = (Inl (GenerationFailed (InvalidAfterRetry m2)),
                  s\<lparr>conversation_context := ensure_context (conversation_context s) session_id,
                    requests := requests s @ [r1, ?r2]\<rparr>)"
    if "client e (requests s @ [r1]) ?r2 = Completion t2"
      and "validate_generated_text (strip t2) level False = Inr (False, m2)"
  proof -
    have "complete e ?r2 ?s1 = (Inr (strip t2), ?s1\<lparr>requests := requests ?s1 @ [?r2]\<rparr>)"
      using complete_reply [of e ?s1 ?r2 t2] that(1) by simp
    then have "retry_attempt e r1 level False ?s1 =
        (Inl (GenerationFailed (InvalidAfterRetry m2)), ?s1\<lparr>requests := requests ?s1 @ [?r2]\<rparr>)"
      by (simp add: retry_attempt_def that(2))
    then show ?thesis unfolding gen by simp
  qed
  show ?thesis
    using log shape fail by (auto simp: context_of_ensure)
qed

theorem retry_once_then_hard_error_witness:
  "fst (generate (example_env ''breve'') ''Redacta un informe'' ''pdf'' [] [] ''basico''
          ''es'' [] ''s1'' fresh_state)
     = Inl (GenerationFailed (InvalidAfterRetry TooShort))
   \<and> length (requests (snd (generate (example_env ''breve'') ''Redacta un informe'' ''pdf'' []
                               [] ''basico'' ''es'' [] ''s1'' fresh_state))) = 2
   \<and> cache (snd (generate (example_env ''breve'') ''Redacta un informe'' ''pdf'' [] []
                    ''basico'' ''es'' [] ''s1'' fresh_state)) = []
   \<and> context_of (conversation_context
        (snd (generate (example_env ''breve'') ''Redacta un informe'' ''pdf'' [] []
                ''basico'' ''es'' [] ''s1'' fresh_state))) ''s1'' = blank_context"
proof -
  have nonconv: "\<not> is_conversational_prompt ''Redacta un informe''" by code_simp
  have miss: "map_of (cache fresh_state)
      (generate_cache_key (example_env ''breve'') ''Redacta un informe'' ''pdf'' [] [] ''basico'' [])
      = None"
    by (simp add: fresh_state_def)
  obtain r1 where req: "build_request (example_env ''breve'') ''Redacta un informe'' [] ''basico''
      ''es'' [] (context_of (conversation_context fresh_state) ''s1'') = Inr r1"
    using build_request_document [OF nonconv, of "example_env ''breve''" "[]" "''basico''"]
    by fastforce
  have reply: "client (example_env ''breve'') log r = Completion ''breve''" for log r
    by (simp add: example_env_def constant_reply_def)
  have bad: "validate_generated_text (strip ''breve'') ''basico'' False = Inr (False, TooShort)"
    by code_simp
  have blank: "context_of Map.empty ''s1'' = blank_context"
    by (simp add: context_of_def)
  from retry_once_then_hard_error [where ?t2.0 = "''breve''" and ?m2.0 = TooShort,
      OF nonconv miss req reply bad]
    reply bad
  show ?thesis by (simp add: fresh_state_def context_of_ensure blank)
qed

subsection \<open>Claim C10\<close>

text \<open>
  C10: for a conversational prompt \<^verbatim>\<open>generate\<close> never ends in the validation error and
  issues at most one completion request; the session contexts keep all their fields (a
  session without a context gets the blank one). On a cache miss, whatever verdict the
  validator gives on the reply (also invalid, as for a reply above the word ceiling), the
  trimmed reply is returned as it is and written to the cache under the fingerprint. The
  validation error is therefore reachable for non-conversational prompts only.
\<close>

theorem conversational_never_invalid:
  assumes conv: "is_conversational_prompt prompt"
  shows "(\<forall>m. fst (generate e prompt doc_type template field_map level language history
                     session_id s) \<noteq> Inl (GenerationFailed (InvalidAfterRetry m)))
         \<and> length (requests (snd (generate e prompt doc_type template field_map level language
                                     history session_id s))) \<le> Suc (length (requests s))
         \<and> conversation_context (snd (generate e prompt doc_type template field_map level language
                                          history session_id s))
             = ensure_context (conversation_context s) session_id
         \<and> (\<forall>sid. context_of (conversation_context
                        (snd (generate e prompt doc_type template field_map level language history
                                session_id s))) sid
                    = context_of (conversation_context s) sid)
         \<and> (map_of (cache s) (generate_cache_key e prompt doc_type template field_map level history)
              = None
            \<and> client e (requests s)
                \<lparr>messages = (''system'', chat_persona_intro (texts e) @ language
                                           @ chat_persona_rest (texts e))
                             # history @ [(''user'', prompt)],
                 max_tokens = 200\<rparr> = Completion content
            \<and> validate_generated_text (strip content) level True = Inr (is_valid, message) \<longrightarrow>
            generate e prompt doc_type template field_map level language history session_id s
              = (Inr (strip content, True),
                 s\<lparr>conversation_context := ensure_context (conversation_context s) session_id,
                   requests := requests s @
                     [\<lparr>messages = (''system'', chat_persona_intro (texts e) @ language
                                                @ chat_persona_rest (texts e))
                                  # history @ [(''user'', prompt)],
                       max_tokens = 200\<rparr>],
                   cache := cache_set
                     (generate_cache_key e prompt doc_type template field_map level history)
                     (strip content) (cache s)\<rparr>)
            \<and> map_of (cache (snd (generate e prompt doc_type template field_map level language
                                     history session_id s)))
                 (generate_cache_key e prompt doc_type template field_map level history)
               = Some (strip content))"
proof -
  let ?s0 = "s\<lparr>conversation_context := ensure_context (conversation_context s) session_id\<rparr>"
  let ?r = "\<lparr>messages = (''system'', chat_persona_intro (texts e) @ language
                                      @ chat_persona_rest (texts e))
                        # history @ [(''user'', prompt)],
             max_tokens = 200\<rparr>"
  let ?key = "generate_cache_key e prompt doc_type template field_map level history"
  let ?g = "generate e prompt doc_type template field_map level language history session_id s"
  have req: "build_request e prompt template level language history
               (context_of (conversation_context s) session_id) = Inr ?r"
    using conv by (rule build_request_conversational)
  have basic: "(\<forall>m. fst ?g \<noteq> Inl (GenerationFailed (InvalidAfterRetry m)))
      \<and> length (requests (snd ?g)) \<le> Suc (length (requests s))
      \<and> conversation_context (snd ?g) = ensure_context (conversation_context s) session_id"
  proof (cases "map_of (cache s) ?key")
    case (Some cached)
    from generate_hit [OF req Some] show ?thesis by simp
  next
    case None
    obtain res s1 where fa: "first_attempt e ?r level True ?s0 = (res, s1)"
      by (cases "first_attempt e ?r level True ?s0")
    from fa first_attempt_conversational_state [of e ?r level ?s0]
    have s1: "s1 = ?s0\<lparr>requests := requests ?s0 @ [?r]\<rparr>" by simp
    from fa first_attempt_conversational_not_invalid [of e ?r level ?s0]
    have ni: "\<forall>m. res \<noteq> Inl (GenerationFailed (InvalidAfterRetry m))" by simp
    from generate_miss [OF req None] conv fa
    have g: "?g = (case res of Inl err \<Rightarrow> (Inl err, s1)
        | Inr generated_text \<Rightarrow>
            store_result ?key generated_text True prompt doc_type template level language
              session_id s1)"
      by (simp split: sum.splits)
    show ?thesis
      unfolding g using s1 ni
      by (cases res) (simp_all add: store_result_conversational)
  qed
  have full: "?g = (Inr (strip content, True),
                 s\<lparr>conversation_context := ensure_context (conversation_context s) session_id,
                   requests := requests s @ [?r],
                   cache := cache_set ?key (strip content) (cache s)\<rparr>)"
    if miss: "map_of (cache s) ?key = None"
      and reply: "client e (requests s) ?r = Completion content"
      and verdict: "validate_generated_text (strip content) level True = Inr (is_valid, message)"
  proof -
    have "complete e ?r ?s0 = (Inr (strip content), ?s0\<lparr>requests := requests ?s0 @ [?r]\<rparr>)"
      using complete_reply [of e ?s0 ?r content] reply by simp
    then have "first_attempt e ?r level True ?s0
                 = (Inr (strip content), ?s0\<lparr>requests := requests ?s0 @ [?r]\<rparr>)"
      by (simp add: first_attempt_conversational verdict)
    with generate_miss [OF req miss] conv show ?thesis
      by (simp add: store_result_conversational)
  qed
  show ?thesis
    using basic full by (auto simp: context_of_ensure cache_set_lookup)
qed

theorem conversational_never_invalid_witness:
  "fst (generate (example_env long_reply) ''hola'' ''texto'' [] [] ''basico'' ''es'' [] ''s1''
          fresh_state) = Inr (long_reply, True)
   \<and> validate_generated_text long_reply ''basico'' True
       = Inr (False, ExceedsLimit ''basico'' 500 501)
   \<and> length (requests (snd (generate (example_env long_reply) ''hola'' ''texto'' [] []
                               ''basico'' ''es'' [] ''s1'' fresh_state))) = 1
   \<and> map_of (cache (snd (generate (example_env long_reply) ''hola'' ''texto'' [] [] ''basico''
                            ''es'' [] ''s1'' fresh_state)))
        (generate_cache_key (example_env long_reply) ''hola'' ''texto'' [] [] ''basico'' [])
       = Some long_reply
   \<and> context_of (conversation_context
        (snd (generate (example_env long_reply) ''hola'' ''texto'' [] [] ''basico'' ''es'' []
                ''s1'' fresh_state))) ''s1'' = blank_context"
proof -
  have conv: "is_conversational_prompt ''hola''" by code_simp
  have miss: "map_of (cache fresh_state)
      (generate_cache_key (example_env long_reply) ''hola'' ''texto'' [] [] ''basico'' [])
      = None"
    by (simp add: fresh_state_def)
  have reply: "client (example_env long_reply) log r = Completion long_reply" for log r
    by (simp add: example_env_def constant_reply_def)
  have st: "strip long_reply = long_reply"
    by (simp add: long_reply_def strip_words)
  have verdict: "validate_generated_text long_reply ''basico'' True
       = Inr (False, ExceedsLimit ''basico'' 500 501)"
    by (simp add: validate_basico long_reply_count)
  have blank: "context_of Map.empty ''s1'' = blank_context"
    by (simp add: context_of_def)
  from conversational_never_invalid [OF conv, of "example_env long_reply" "''texto''" "[]" "[]"
      "''basico''" "''es''" "[]" "''s1''" fresh_state long_reply False
      "ExceedsLimit ''basico'' 500 501"]
    miss reply verdict st
  show ?thesis by (simp add: fresh_state_def context_of_ensure blank cache_set_lookup)
qed

end
